theory Spec2Isabelle
  imports Complex_Main "HOL-Library.Sublist"
begin

section \<open>Python values used by the notebook\<close>

subsection \<open>Integers formatted into f-strings\<close>

text \<open>
  An f-string field \<^verbatim>\<open>{epoch}\<close> holding a Python \<^verbatim>\<open>int\<close> is formatted as
  its decimal representation, with a leading minus sign for a negative value.
\<close>

definition digit_char :: "nat \<Rightarrow> char" where
  "digit_char d = char_of (48 + d)"

function str_nat :: "nat \<Rightarrow> string" where
  "str_nat n = (if n < 10 then [digit_char n] else str_nat (n div 10) @ [digit_char (n mod 10)])"
  by pat_completeness auto
termination
  by (relation "measure (\<lambda>n. n)") auto

declare str_nat.simps [simp del]

definition str_int :: "int \<Rightarrow> string" where
  "str_int i = (if i < 0 then CHR ''-'' # str_nat (nat (- i)) else str_nat (nat i))"

subsection \<open>pathlib paths (POSIX flavour)\<close>

text \<open>
  A \<^verbatim>\<open>PurePosixPath\<close> is a root (\<^verbatim>\<open>""\<close>, \<^verbatim>\<open>"/"\<close> or \<^verbatim>\<open>"//"\<close>) and a list of
  components. Parsing a string splits it at \<^verbatim>\<open>/\<close> and drops empty components and
  \<^verbatim>\<open>.\<close> components (but keeps \<^verbatim>\<open>..\<close>); a string that starts with exactly two
  slashes has root \<^verbatim>\<open>//\<close>.
\<close>

datatype path = Path (root: string) (parts: "string list")

fun split_sep :: "char \<Rightarrow> string \<Rightarrow> string list" where
  "split_sep c [] = [[]]"
| "split_sep c (x # xs) =
     (if x = c then [] # split_sep c xs
      else (case split_sep c xs of [] \<Rightarrow> [[x]] | s # ss \<Rightarrow> (x # s) # ss))"

definition splitroot :: "string \<Rightarrow> string \<times> string" where
  "splitroot p =
     (if take 1 p \<noteq> ''/'' then ('''', p)
      else if take 1 (drop 1 p) \<noteq> ''/'' \<or> take 1 (drop 2 p) = ''/'' then (''/'', drop 1 p)
      else (''//'', drop 2 p))"

definition parse_path :: "string \<Rightarrow> path" where
  "parse_path s =
     (case splitroot s of
        (r, rel) \<Rightarrow> Path r (filter (\<lambda>x. x \<noteq> [] \<and> x \<noteq> ''.'') (split_sep CHR ''/'' rel)))"

text \<open>
  \<^verbatim>\<open>p / s\<close> for a path \<^verbatim>\<open>p\<close> and a string \<^verbatim>\<open>s\<close>: an absolute \<^verbatim>\<open>s\<close>
  replaces \<^verbatim>\<open>p\<close>, a relative one appends its components.
\<close>

definition joinpath :: "path \<Rightarrow> string \<Rightarrow> path" where
  "joinpath p s =
     (if take 1 s = ''/'' then parse_path s
      else Path (root p) (parts p @ parts (parse_path s)))"

text \<open>\<^verbatim>\<open>p.parent\<close>: the root is its own parent.\<close>

definition parent :: "path \<Rightarrow> path" where
  "parent p = Path (root p) (butlast (parts p))"

fun join_sep :: "string \<Rightarrow> string list \<Rightarrow> string" where
  "join_sep sep [] = []"
| "join_sep sep [x] = x"
| "join_sep sep (x # y # ys) = x @ sep @ join_sep sep (y # ys)"

text \<open>\<^verbatim>\<open>str(p)\<close>.\<close>

definition str_path :: "path \<Rightarrow> string" where
  "str_path p =
     (if root p = [] \<and> parts p = [] then ''.'' else root p @ join_sep ''/'' (parts p))"

section \<open>The world the notebook runs in\<close>

subsection \<open>Exceptions\<close>

datatype error =
    ValueError string
  | ImportError
  | FileNotFoundError
  | FileExistsError
  | NotADirectoryError
  | OtherError string

subsection \<open>Arguments of the library calls\<close>

text \<open>The \<^verbatim>\<open>config\<close> dictionary given to \<^verbatim>\<open>wandb.init\<close>, one field per key.\<close>

record wandb_config =
  cfg_epochs :: int
  cfg_batch_size :: int
  cfg_optimizer :: string
  cfg_version :: string

record wandb_init_args =
  init_project :: string
  init_entity :: string
  init_name :: string
  init_config :: wandb_config
  init_timeout :: int
  init_dir :: string

text \<open>
  The keyword arguments of \<^verbatim>\<open>model.train\<close>. The weight decay is the literal
  \<^verbatim>\<open>0.0005\<close>, kept as the number the literal denotes.
\<close>

record train_args =
  arg_data :: string
  arg_epochs :: int
  arg_batch :: int
  arg_optimizer :: string
  arg_weight_decay :: real
  arg_warmup_epochs :: int
  arg_save_dir :: string
  arg_device :: string

subsection \<open>Effects\<close>

text \<open>
  Every call that leaves the notebook is logged as an event, in program order, when it is
  attempted. \<open>Train m a\<close> is \<^verbatim>\<open>model.train(**a)\<close> on the model loaded from
  checkpoint \<open>m\<close>. Printing is left out.
\<close>

datatype event =
    Shell string
  | ImportModule string
  | PipInstall string
  | UltralyticsChecks
  | MagicCd path
  | DisplayImage string
  | LoadDotenv
  | RoboflowDownload "string option" string string int string
  | WandbLogin
  | Chdir path
  | Mkdir path
  | WandbInit wandb_init_args
  | YoloLoad string
  | CudaIsAvailable
  | Train string train_args
  | WandbFinish

datatype node = Dir | File

type_synonym filesystem = "path \<Rightarrow> node option"

text \<open>
  What the notebook does not decide: whether a library call raises (and what), how it
  changes the file system, whether CUDA is available, what the \<^verbatim>\<open>.env\<close> file
  holds and where the downloaded dataset lands. Each answer may depend on the events so
  far.
\<close>

record externals =
  outcome_of :: "event list \<Rightarrow> event \<Rightarrow> error option"
  fs_effect :: "event list \<Rightarrow> event \<Rightarrow> filesystem \<Rightarrow> filesystem"
  cuda_available :: "event list \<Rightarrow> bool"
  dotenv_file :: "string \<Rightarrow> string option"
  download_location :: "event list \<Rightarrow> string"

text \<open>
  The process state and the notebook's global variables. The globals hold whatever the
  initial world gives them until the cell that assigns them has run.
\<close>

record world =
  environ :: "string \<Rightarrow> string option"
  fs :: filesystem
  cwd :: path
  trace :: "event list"
  BASE :: path
  HOME :: path
  DATASETS_PATH :: path
  api_key :: "string option"
  dataset :: string

datatype 'a outcome = Returns 'a world | Raises error world

fun world_of :: "'a outcome \<Rightarrow> world" where
  "world_of (Returns a w) = w"
| "world_of (Raises e w) = w"

fun raised :: "'a outcome \<Rightarrow> error option" where
  "raised (Returns a w) = None"
| "raised (Raises e w) = Some e"

text \<open>Statement sequencing: an exception skips the rest.\<close>

fun and_then :: "'a outcome \<Rightarrow> ('a \<Rightarrow> world \<Rightarrow> 'b outcome) \<Rightarrow> 'b outcome" where
  "and_then (Returns a w) f = f a w"
| "and_then (Raises e w) f = Raises e w"

definition logged :: "event \<Rightarrow> world \<Rightarrow> world" where
  "logged ev w = w\<lparr>trace := trace w @ [ev]\<rparr>"

text \<open>
  A call into a library whose behaviour is not modelled: it is logged, changes the file
  system as the library does, and returns or raises.
\<close>

definition effect :: "externals \<Rightarrow> event \<Rightarrow> world \<Rightarrow> world" where
  "effect X ev w = (logged ev w)\<lparr>fs := fs_effect X (trace w) ev (fs w)\<rparr>"

definition call :: "externals \<Rightarrow> event \<Rightarrow> world \<Rightarrow> unit outcome" where
  "call X ev w =
     (case outcome_of X (trace w) ev of
        None \<Rightarrow> Returns () (effect X ev w)
      | Some e \<Rightarrow> Raises e (effect X ev w))"

subsection \<open>The file system calls the notebook makes\<close>

definition lookup :: "filesystem \<Rightarrow> path \<Rightarrow> node option" where
  "lookup f p = (if parts p = [] then Some Dir else f p)"

definition is_dir :: "filesystem \<Rightarrow> path \<Rightarrow> bool" where
  "is_dir f p = (lookup f p = Some Dir)"

text \<open>
  \<^verbatim>\<open>os.mkdir\<close>: the path must be new (\<^verbatim>\<open>EEXIST\<close>), its parent must exist
  (\<^verbatim>\<open>ENOENT\<close>) and be a directory (\<^verbatim>\<open>ENOTDIR\<close>).
\<close>

definition os_mkdir :: "filesystem \<Rightarrow> path \<Rightarrow> error + filesystem" where
  "os_mkdir f p =
     (if lookup f p \<noteq> None then Inl FileExistsError
      else (case lookup f (parent p) of
              None \<Rightarrow> Inl FileNotFoundError
            | Some File \<Rightarrow> Inl NotADirectoryError
            | Some Dir \<Rightarrow> Inr (f(p \<mapsto> Dir))))"

text \<open>
  \<^verbatim>\<open>Path.mkdir(parents, exist_ok)\<close> as pathlib implements it: try
  \<^verbatim>\<open>os.mkdir\<close>; on \<^verbatim>\<open>FileNotFoundError\<close> create the parent first (when
  \<^verbatim>\<open>parents\<close> is set and the path is not its own parent) and try once more without
  \<^verbatim>\<open>parents\<close>; any other \<^verbatim>\<open>OSError\<close> is swallowed when \<^verbatim>\<open>exist_ok\<close> is set
  and the path is a directory. The result is the exception raised, if any, and the file
  system left behind (parents created before a failure stay).
\<close>

definition mkdir_no_parents :: "filesystem \<Rightarrow> path \<Rightarrow> bool \<Rightarrow> error option \<times> filesystem" where
  "mkdir_no_parents f p exist_ok =
     (case os_mkdir f p of
        Inr f' \<Rightarrow> (None, f')
      | Inl e \<Rightarrow>
          (if e = FileNotFoundError then (Some e, f)
           else if \<not> exist_ok \<or> \<not> is_dir f p then (Some e, f) else (None, f)))"

function mkdir_parents :: "filesystem \<Rightarrow> path \<Rightarrow> bool \<Rightarrow> error option \<times> filesystem" where
  "mkdir_parents f p exist_ok =
     (case os_mkdir f p of
        Inr f' \<Rightarrow> (None, f')
      | Inl e \<Rightarrow>
          (if e = FileNotFoundError then
             (if parent p = p then (Some e, f)
              else (case mkdir_parents f (parent p) True of
                      (Some e', f') \<Rightarrow> (Some e', f')
                    | (None, f') \<Rightarrow> mkdir_no_parents f' p exist_ok))
           else if \<not> exist_ok \<or> \<not> is_dir f p then (Some e, f) else (None, f)))"
  by pat_completeness auto
termination
proof (relation "measure (\<lambda>(f, p, x). length (parts p))")
  show "wf (measure (\<lambda>(f, p, x). length (parts p)))" by simp
next
  fix f :: filesystem and p :: path and exist_ok :: bool and e :: error
  assume "parent p \<noteq> p"
  then have "parts p \<noteq> []"
    by (cases p) (auto simp: parent_def)
  then show "((f, parent p, True), (f, p, exist_ok)) \<in> measure (\<lambda>(f, p, x). length (parts p))"
    by (simp add: parent_def)
qed

declare mkdir_parents.simps [simp del]

definition Path_mkdir :: "filesystem \<Rightarrow> path \<Rightarrow> bool \<Rightarrow> bool \<Rightarrow> error option \<times> filesystem" where
  "Path_mkdir f p parents exist_ok =
     (if parents then mkdir_parents f p exist_ok else mkdir_no_parents f p exist_ok)"

text \<open>\<^verbatim>\<open>p.mkdir(parents=True, exist_ok=True)\<close> as a statement.\<close>

definition mkdir_stmt :: "path \<Rightarrow> world \<Rightarrow> unit outcome" where
  "mkdir_stmt p w =
     (case Path_mkdir (fs w) p True True of
        (Some e, f') \<Rightarrow> Raises e ((logged (Mkdir p) w)\<lparr>fs := f'\<rparr>)
      | (None, f') \<Rightarrow> Returns () ((logged (Mkdir p) w)\<lparr>fs := f'\<rparr>))"

text \<open>\<^verbatim>\<open>os.chdir(p)\<close>.\<close>

definition os_chdir :: "path \<Rightarrow> world \<Rightarrow> unit outcome" where
  "os_chdir p w =
     (case lookup (fs w) p of
        None \<Rightarrow> Raises FileNotFoundError (logged (Chdir p) w)
      | Some File \<Rightarrow> Raises NotADirectoryError (logged (Chdir p) w)
      | Some Dir \<Rightarrow> Returns () ((logged (Chdir p) w)\<lparr>cwd := p\<rparr>))"

text \<open>
  \<^verbatim>\<open>load_dotenv()\<close> with its default \<^verbatim>\<open>override=False\<close>: a variable of the
  \<^verbatim>\<open>.env\<close> file is set only when the environment does not have it yet (even when
  the environment holds the empty string for it).
\<close>

definition load_dotenv :: "externals \<Rightarrow> world \<Rightarrow> unit outcome" where
  "load_dotenv X w =
     and_then (call X LoadDotenv w) (\<lambda>_ w.
       Returns () (w\<lparr>environ :=
         (\<lambda>k. case environ w k of Some v \<Rightarrow> Some v | None \<Rightarrow> dotenv_file X k)\<rparr>))"

section \<open>The notebook\<close>

subsection \<open>Cell 2: the GPU check\<close>

text \<open>A \<^verbatim>\<open>!command\<close> line runs in a subshell; its exit status raises nothing.\<close>

definition shell_escape :: "externals \<Rightarrow> string \<Rightarrow> world \<Rightarrow> unit outcome" where
  "shell_escape X cmd w = Returns () (effect X (Shell cmd) w)"

definition cell_2 :: "externals \<Rightarrow> world \<Rightarrow> unit outcome" where
  "cell_2 X w = shell_escape X ''nvidia-smi'' w"

subsection \<open>Cell 4: the project directory\<close>

definition cell_4 :: "externals \<Rightarrow> world \<Rightarrow> unit outcome" where
  "cell_4 X w =
     (let w = w\<lparr>BASE := parent (cwd w)\<rparr>;
          w = w\<lparr>HOME := joinpath (BASE w) ''yolov8''\<rparr>;
          w = w\<lparr>DATASETS_PATH := joinpath (HOME w) ''datasets''\<rparr>
      in mkdir_stmt (DATASETS_PATH w) w)"

subsection \<open>Cell 6: installing a package on demand\<close>

definition ensure_package_installed ::
  "externals \<Rightarrow> string \<Rightarrow> string option \<Rightarrow> string \<Rightarrow> world \<Rightarrow> unit outcome" where
  "ensure_package_installed X package_name import_name version_spec w =
     (let import_name =
            (case import_name of
               None \<Rightarrow> package_name
             | Some s \<Rightarrow> if s = [] then package_name else s)
      in case call X (ImportModule import_name) w of
           Returns _ w' \<Rightarrow> Returns () w'
         | Raises e w' \<Rightarrow>
             (if e = ImportError then call X (PipInstall (package_name @ version_spec)) w'
              else Raises e w'))"

subsection \<open>Cell 8: the detection library\<close>

definition cell_8 :: "externals \<Rightarrow> world \<Rightarrow> unit outcome" where
  "cell_8 X w =
     and_then (ensure_package_installed X ''ultralytics'' None ''>=8,<9'' w) (\<lambda>_ w.
     and_then (call X (ImportModule ''ultralytics'') w) (\<lambda>_ w.
     call X UltralyticsChecks w))"

subsection \<open>Cell 10: a test inference\<close>

text \<open>\<^verbatim>\<open>%cd\<close> reports a missing directory and carries on.\<close>

definition magic_cd :: "path \<Rightarrow> world \<Rightarrow> unit outcome" where
  "magic_cd p w =
     (if is_dir (fs w) p then Returns () ((logged (MagicCd p) w)\<lparr>cwd := p\<rparr>)
      else Returns () (logged (MagicCd p) w))"

definition cell_10 :: "externals \<Rightarrow> world \<Rightarrow> unit outcome" where
  "cell_10 X w =
     and_then (call X (ImportModule ''IPython.display'') w) (\<lambda>_ w.
     and_then (magic_cd (HOME w) w) (\<lambda>_ w.
     and_then (shell_escape X
        (''yolo task=detect mode=predict model=yolov8n.pt conf=0.25 source='' @
           str_path (BASE w) @ ''/img/test.jpg save=True'') w) (\<lambda>_ w.
     call X (DisplayImage ''runs/detect/predict/test.jpg'') w)))"

subsection \<open>Cell 12: the dataset provider's credential\<close>

text \<open>The message of the error, without the symbol it starts with.\<close>

definition api_key_message :: string where
  "api_key_message = ''API key not found. Ensure .env file contains ROBOFLOW_API_KEY.''"

text \<open>\<^verbatim>\<open>not api_key\<close>: true of \<^verbatim>\<open>None\<close> and of the empty string.\<close>

definition falsy :: "string option \<Rightarrow> bool" where
  "falsy v = (case v of None \<Rightarrow> True | Some s \<Rightarrow> s = [])"

text \<open>
  The cell in two parts: the package checks, the imports and \<^verbatim>\<open>load_dotenv()\<close>;
  then the lookup of the key and the check.
\<close>

definition cell_12_setup :: "externals \<Rightarrow> world \<Rightarrow> unit outcome" where
  "cell_12_setup X w =
     and_then (ensure_package_installed X ''python-dotenv'' (Some ''dotenv'') [] w) (\<lambda>_ w.
     and_then (ensure_package_installed X ''roboflow'' None [] w) (\<lambda>_ w.
     and_then (call X (ImportModule ''os'') w) (\<lambda>_ w.
     and_then (call X (ImportModule ''dotenv'') w) (\<lambda>_ w.
     and_then (call X (ImportModule ''roboflow'') w) (\<lambda>_ w.
     load_dotenv X w)))))"

definition require_api_key :: "world \<Rightarrow> unit outcome" where
  "require_api_key w =
     (let w = w\<lparr>api_key := environ w ''ROBOFLOW_API_KEY''\<rparr>
      in if falsy (api_key w) then Raises (ValueError api_key_message) w
         else Returns () w)"

definition cell_12 :: "externals \<Rightarrow> world \<Rightarrow> unit outcome" where
  "cell_12 X w = and_then (cell_12_setup X w) (\<lambda>_ w. require_api_key w)"

subsection \<open>Cell 14: the dataset download\<close>

text \<open>
  The four calls that end in \<^verbatim>\<open>version.download("yolov8")\<close> are one event, with the key,
  the workspace, the project, the version and the format; what the download returns is kept
  in the global \<^verbatim>\<open>dataset\<close>.
\<close>

definition cell_14 :: "externals \<Rightarrow> world \<Rightarrow> unit outcome" where
  "cell_14 X w =
     and_then (os_chdir (DATASETS_PATH w) w) (\<lambda>_ w.
     and_then (call X (RoboflowDownload (api_key w)
        ''i-wayan-agus-darmawan-siflb'' ''ta-o2kfq'' 5 ''yolov8'') w) (\<lambda>_ w'.
     Returns () (w'\<lparr>dataset := download_location X (trace w)\<rparr>)))"

subsection \<open>Cell 16: the tracking service\<close>

definition cell_16 :: "externals \<Rightarrow> world \<Rightarrow> unit outcome" where
  "cell_16 X w =
     and_then (ensure_package_installed X ''wandb'' None [] w) (\<lambda>_ w.
     and_then (ensure_package_installed X ''torch'' None [] w) (\<lambda>_ w.
     and_then (call X (ImportModule ''wandb'') w) (\<lambda>_ w.
     and_then (call X (ImportModule ''torch'') w) (\<lambda>_ w.
     call X WandbLogin w))))"

subsection \<open>Cell 18: one training run\<close>

definition base_dir :: "path \<Rightarrow> string \<Rightarrow> path" where
  "base_dir home version = joinpath home (''experiments/yolov8'' @ version)"

definition experiment_name :: "int \<Rightarrow> int \<Rightarrow> string \<Rightarrow> string" where
  "experiment_name epoch batch_size optimizer =
     ''epoch_'' @ str_int epoch @ ''_batch_'' @ str_int batch_size @ ''_optimizer_'' @ optimizer"

definition experiment_path :: "path \<Rightarrow> string \<Rightarrow> int \<Rightarrow> int \<Rightarrow> string \<Rightarrow> path" where
  "experiment_path home version epoch batch_size optimizer =
     joinpath (base_dir home version) (experiment_name epoch batch_size optimizer)"

definition run_name :: "string \<Rightarrow> int \<Rightarrow> int \<Rightarrow> string \<Rightarrow> string" where
  "run_name version epoch batch_size optimizer =
     ''yolov8'' @ version @ ''-'' @ experiment_name epoch batch_size optimizer"

definition init_args :: "path \<Rightarrow> string \<Rightarrow> int \<Rightarrow> int \<Rightarrow> string \<Rightarrow> wandb_init_args" where
  "init_args home version epoch batch_size optimizer =
     \<lparr>init_project = ''elec-thermal-detection'',
      init_entity = ''dar-ta'',
      init_name = run_name version epoch batch_size optimizer,
      init_config = \<lparr>cfg_epochs = epoch, cfg_batch_size = batch_size,
                cfg_optimizer = optimizer, cfg_version = version\<rparr>,
      init_timeout = 300,
      init_dir = str_path (experiment_path home version epoch batch_size optimizer)\<rparr>"

definition model_name :: "string \<Rightarrow> string" where
  "model_name version = ''yolov8'' @ version @ ''.pt''"

definition train_kwargs ::
  "path \<Rightarrow> string \<Rightarrow> int \<Rightarrow> int \<Rightarrow> string \<Rightarrow> string \<Rightarrow> string \<Rightarrow> train_args" where
  "train_kwargs home version epoch batch_size optimizer dataset_location dev =
     \<lparr>arg_data = dataset_location @ ''/data.yaml'',
      arg_epochs = epoch,
      arg_batch = batch_size,
      arg_optimizer = optimizer,
      arg_weight_decay = 0.0005,
      arg_warmup_epochs = 3,
      arg_save_dir = str_path (experiment_path home version epoch batch_size optimizer),
      arg_device = dev\<rparr>"

text \<open>\<^verbatim>\<open>"cuda" if torch.cuda.is_available() else "cpu"\<close>.\<close>

definition select_device :: "bool \<Rightarrow> string" where
  "select_device available = (if available then ''cuda'' else ''cpu'')"

definition train_yolo_with_wandb ::
  "externals \<Rightarrow> string \<Rightarrow> int \<Rightarrow> int \<Rightarrow> string \<Rightarrow> string \<Rightarrow> world \<Rightarrow> unit outcome" where
  "train_yolo_with_wandb X version epoch batch_size optimizer dataset_location w =
     and_then (os_chdir (DATASETS_PATH w) w) (\<lambda>_ w.
     and_then (mkdir_stmt (experiment_path (HOME w) version epoch batch_size optimizer) w) (\<lambda>_ w.
     and_then (call X (WandbInit (init_args (HOME w) version epoch batch_size optimizer)) w) (\<lambda>_ w.
     and_then (call X (YoloLoad (model_name version)) w) (\<lambda>_ w.
     (let dev = select_device (cuda_available X (trace w));
          w = logged CudaIsAvailable w
      in and_then (call X (Train (model_name version)
             (train_kwargs (HOME w) version epoch batch_size optimizer dataset_location dev)) w)
           (\<lambda>_ w. call X WandbFinish w))))))"

subsection \<open>Cell 20: the grid search\<close>

text \<open>A \<^verbatim>\<open>for\<close> loop over a list, with no \<^verbatim>\<open>break\<close> and no handler.\<close>

fun for_each :: "'a list \<Rightarrow> ('a \<Rightarrow> world \<Rightarrow> unit outcome) \<Rightarrow> world \<Rightarrow> unit outcome" where
  "for_each [] body w = Returns () w"
| "for_each (x # xs) body w = and_then (body x w) (\<lambda>_ w'. for_each xs body w')"

definition versions :: "string list" where
  "versions = [''n'', ''s'', ''m'', ''l'', ''x'']"

definition epochs :: "int list" where
  "epochs = [50, 100, 150, 200]"

definition batch_sizes :: "int list" where
  "batch_sizes = [2, 4, 8, 16]"

definition optimizers :: "string list" where
  "optimizers = [''Adam'', ''SGD'']"

definition cell_20 :: "externals \<Rightarrow> world \<Rightarrow> unit outcome" where
  "cell_20 X w =
     (let dataset_location = str_path (joinpath (DATASETS_PATH w) ''TA-5'')
      in for_each versions (\<lambda>version.
           for_each epochs (\<lambda>epoch.
             for_each batch_sizes (\<lambda>batch_size.
               for_each optimizers (\<lambda>optimizer.
                 train_yolo_with_wandb X version epoch batch_size optimizer
                   dataset_location)))) w)"

subsection \<open>The cells, top to bottom\<close>

text \<open>
  The cells run in the order of the file; a cell that raises stops the run. The cells
  that only define a function (6 and 18) have no effect of their own.
\<close>

definition notebook :: "externals \<Rightarrow> world \<Rightarrow> unit outcome" where
  "notebook X w =
     and_then (cell_2 X w) (\<lambda>_ w.
     and_then (cell_4 X w) (\<lambda>_ w.
     and_then (cell_8 X w) (\<lambda>_ w.
     and_then (cell_10 X w) (\<lambda>_ w.
     and_then (cell_12 X w) (\<lambda>_ w.
     and_then (cell_14 X w) (\<lambda>_ w.
     and_then (cell_16 X w) (\<lambda>_ w.
     cell_20 X w)))))))"

section \<open>What a run leaves in the log\<close>

text \<open>The events a computation started in \<open>w\<close> has added to the log.\<close>

definition events_since :: "world \<Rightarrow> 'a outcome \<Rightarrow> event list" where
  "events_since w r = drop (length (trace w)) (trace (world_of r))"

text \<open>The calls of \<^verbatim>\<open>model.train\<close> in a log, oldest first.\<close>

fun train_calls :: "event list \<Rightarrow> (string \<times> train_args) list" where
  "train_calls [] = []"
| "train_calls (Train m a # es) = (m, a) # train_calls es"
| "train_calls (ev # es) = train_calls es"

text \<open>
  \<open>each_train P h es\<close>: every \<^verbatim>\<open>model.train\<close> call in \<open>es\<close> satisfies \<open>P\<close>,
  which sees the log up to the call (\<open>h\<close> is the log before \<open>es\<close>), the checkpoint and
  the arguments.
\<close>

fun each_train ::
  "(event list \<Rightarrow> string \<Rightarrow> train_args \<Rightarrow> bool) \<Rightarrow> event list \<Rightarrow> event list \<Rightarrow> bool" where
  "each_train P h [] = True"
| "each_train P h (Train m a # es) = (P h m a \<and> each_train P (h @ [Train m a]) es)"
| "each_train P h (ev # es) = each_train P (h @ [ev]) es"

text \<open>
  The seven calls of one complete run of \<^verbatim>\<open>train_yolo_with_wandb\<close>, given the log
  \<open>h\<close> at its start and the globals \<^verbatim>\<open>HOME\<close> and \<^verbatim>\<open>DATASETS_PATH\<close>.
\<close>

definition run_events ::
  "externals \<Rightarrow> event list \<Rightarrow> path \<Rightarrow> path \<Rightarrow> string \<Rightarrow> int \<Rightarrow> int \<Rightarrow> string \<Rightarrow> string
     \<Rightarrow> event list" where
  "run_events X h home datasets_path version epoch batch_size optimizer dataset_location =
     (let setup = [Chdir datasets_path,
                   Mkdir (experiment_path home version epoch batch_size optimizer),
                   WandbInit (init_args home version epoch batch_size optimizer),
                   YoloLoad (model_name version)];
          dev = select_device (cuda_available X (h @ setup))
      in setup @
         [CudaIsAvailable,
          Train (model_name version)
            (train_kwargs home version epoch batch_size optimizer dataset_location dev),
          WandbFinish])"

text \<open>The combinations of the grid, in the order of the four nested loops.\<close>

definition grid :: "(string \<times> int \<times> int \<times> string) list" where
  "grid = [(version, epoch, batch_size, optimizer).
             version \<leftarrow> versions, epoch \<leftarrow> epochs,
             batch_size \<leftarrow> batch_sizes, optimizer \<leftarrow> optimizers]"

text \<open>The body of the innermost loop, for one combination.\<close>

definition run_cell ::
  "externals \<Rightarrow> string \<Rightarrow> string \<times> int \<times> int \<times> string \<Rightarrow> world \<Rightarrow> unit outcome" where
  "run_cell X dataset_location c =
     (case c of (version, epoch, batch_size, optimizer) \<Rightarrow>
        train_yolo_with_wandb X version epoch batch_size optimizer dataset_location)"

text \<open>The run configuration a \<^verbatim>\<open>model.train\<close> call was made for.\<close>

definition call_config :: "string \<times> train_args \<Rightarrow> string \<times> int \<times> int \<times> string" where
  "call_config c = (case c of (m, a) \<Rightarrow> (m, arg_epochs a, arg_batch a, arg_optimizer a))"

definition cell_config :: "string \<times> int \<times> int \<times> string \<Rightarrow> string \<times> int \<times> int \<times> string" where
  "cell_config c =
     (case c of (version, epoch, batch_size, optimizer) \<Rightarrow>
        (model_name version, epoch, batch_size, optimizer))"

text \<open>A valid run configuration.\<close>

definition valid_config :: "string \<Rightarrow> int \<Rightarrow> int \<Rightarrow> string \<Rightarrow> bool" where
  "valid_config version epoch batch_size optimizer =
     (version \<in> {''n'', ''s'', ''m'', ''l'', ''x''} \<and> 0 < epoch \<and> 0 < batch_size \<and>
      optimizer \<in> {''Adam'', ''SGD''})"

subsection \<open>Relations between the world before a step and the world after it\<close>

fun is_train :: "event \<Rightarrow> bool" where
  "is_train (Train m a) = True"
| "is_train ev = False"

text \<open>
  The calls made by the cells up to and including the credential check: shell commands,
  imports and installs, the library self-check, the test image, \<^verbatim>\<open>%cd\<close>,
  \<^verbatim>\<open>mkdir\<close> and \<^verbatim>\<open>load_dotenv\<close>. The dataset download, the tracking
  service, \<^verbatim>\<open>os.chdir\<close>, the checkpoint load, the CUDA query and training are not
  among them.
\<close>

fun setup_event :: "event \<Rightarrow> bool" where
  "setup_event (Shell c) = True"
| "setup_event (ImportModule m) = True"
| "setup_event (PipInstall p) = True"
| "setup_event UltralyticsChecks = True"
| "setup_event (MagicCd p) = True"
| "setup_event (DisplayImage f) = True"
| "setup_event LoadDotenv = True"
| "setup_event (Mkdir p) = True"
| "setup_event ev = False"

definition log_grows :: "(event \<Rightarrow> bool) \<Rightarrow> world \<Rightarrow> world \<Rightarrow> bool" where
  "log_grows Q w w' = (\<exists>es. trace w' = trace w @ es \<and> list_all Q es)"

definition same_globals :: "world \<Rightarrow> world \<Rightarrow> bool" where
  "same_globals w w' = (BASE w' = BASE w \<and> HOME w' = HOME w \<and> DATASETS_PATH w' = DATASETS_PATH w)"

text \<open>
  What a step may do to the credential's variable: leave it alone, or set it from the
  \<^verbatim>\<open>.env\<close> file when the environment does not have it.
\<close>

definition keeps_key :: "externals \<Rightarrow> world \<Rightarrow> world \<Rightarrow> bool" where
  "keeps_key X w w' =
     (environ w' ''ROBOFLOW_API_KEY'' = environ w ''ROBOFLOW_API_KEY'' \<or>
      (environ w ''ROBOFLOW_API_KEY'' = None \<and>
       environ w' ''ROBOFLOW_API_KEY'' = dotenv_file X ''ROBOFLOW_API_KEY''))"

text \<open>The notebook in three parts: the cells before cell 12, cell 12, the cells after it.\<close>

definition cells_before_12 :: "externals \<Rightarrow> world \<Rightarrow> unit outcome" where
  "cells_before_12 X w =
     and_then (cell_2 X w) (\<lambda>_ w.
     and_then (cell_4 X w) (\<lambda>_ w.
     and_then (cell_8 X w) (\<lambda>_ w.
     cell_10 X w)))"

definition cells_after_12 :: "externals \<Rightarrow> world \<Rightarrow> unit outcome" where
  "cells_after_12 X w =
     and_then (cell_14 X w) (\<lambda>_ w.
     and_then (cell_16 X w) (\<lambda>_ w.
     cell_20 X w))"

section \<open>Example worlds\<close>

text \<open>
  Libraries that never fail and leave the file system alone; the same with a training call
  that runs out of memory; a world before the first cell; a world in which cell 4 has run.
\<close>

definition quiet :: externals where
  "quiet =
     \<lparr>outcome_of = (\<lambda>h ev. None),
      fs_effect = (\<lambda>h ev f. f),
      cuda_available = (\<lambda>h. False),
      dotenv_file = Map.empty,
      download_location = (\<lambda>h. ''/work/yolov8/datasets/TA-5'')\<rparr>"

definition out_of_memory :: externals where
  "out_of_memory =
     quiet\<lparr>outcome_of :=
       (\<lambda>h ev. case ev of Train m a \<Rightarrow> Some (OtherError ''CUDA out of memory'') | _ \<Rightarrow> None)\<rparr>"

definition fresh_world :: world where
  "fresh_world =
     \<lparr>environ = Map.empty,
      fs = [Path ''/'' [''work''] \<mapsto> Dir, Path ''/'' [''work'', ''notebooks''] \<mapsto> Dir],
      cwd = Path ''/'' [''work'', ''notebooks''],
      trace = [],
      BASE = Path [] [],
      HOME = Path [] [],
      DATASETS_PATH = Path [] [],
      api_key = None,
      dataset = []\<rparr>"

definition ready_world :: world where
  "ready_world =
     fresh_world
       \<lparr>fs := [Path ''/'' [''work''] \<mapsto> Dir, Path ''/'' [''work'', ''yolov8''] \<mapsto> Dir,
               Path ''/'' [''work'', ''yolov8'', ''datasets''] \<mapsto> Dir],
        cwd := Path ''/'' [''work'', ''yolov8'', ''datasets''],
        BASE := Path ''/'' [''work''],
        HOME := Path ''/'' [''work'', ''yolov8''],
        DATASETS_PATH := Path ''/'' [''work'', ''yolov8'', ''datasets'']\<rparr>"

text \<open>A \<^verbatim>\<open>.env\<close> file with a key, and an environment that holds the empty string for it.\<close>

definition dotenv_has_key :: externals where
  "dotenv_has_key = quiet\<lparr>dotenv_file := [''ROBOFLOW_API_KEY'' \<mapsto> ''secret'']\<rparr>"

definition empty_key_world :: world where
  "empty_key_world = fresh_world\<lparr>environ := [''ROBOFLOW_API_KEY'' \<mapsto> []]\<rparr>"

text \<open>Libraries whose training call runs out of memory for the optimizer \<^verbatim>\<open>SGD\<close> only.\<close>

definition sgd_out_of_memory :: externals where
  "sgd_out_of_memory =
     quiet\<lparr>outcome_of :=
       (\<lambda>h ev. case ev of
          Train m a \<Rightarrow>
            if arg_optimizer a = ''SGD'' then Some (OtherError ''CUDA out of memory'') else None
        | _ \<Rightarrow> None)\<rparr>"

section \<open>Decimal strings and paths\<close>

lemma of_char_digit: "d < 10 \<Longrightarrow> of_char (digit_char d) = (48 + d :: nat)"
proof -
  assume d: "d < 10"
  have "of_char (digit_char d) = ((48 + d) mod 256 :: nat)"
    unfolding digit_char_def by (simp only: of_char_of)
  with d show ?thesis by simp
qed

lemma digit_char_inj: "a < 10 \<Longrightarrow> b < 10 \<Longrightarrow> digit_char a = digit_char b \<Longrightarrow> a = b"
proof -
  assume a: "a < 10" and b: "b < 10" and e: "digit_char a = digit_char b"
  from e have "(of_char (digit_char a) :: nat) = of_char (digit_char b)"
    by (simp only:)
  with a b show "a = b" by (simp add: of_char_digit)
qed

lemma digit_not_sep: "d < 10 \<Longrightarrow> digit_char d \<notin> {CHR ''_'', CHR ''/'', CHR ''-'', CHR ''.''}"
proof
  assume d: "d < 10" and "digit_char d \<in> {CHR ''_'', CHR ''/'', CHR ''-'', CHR ''.''}"
  then have "(of_char (digit_char d) :: nat) \<in> {95, 47, 45, 46}"
    by auto
  with d show False by (simp add: of_char_digit)
qed

lemma str_nat_chars: "c \<in> set (str_nat n) \<Longrightarrow> \<exists>d<10. c = digit_char d"
proof (induction n rule: str_nat.induct)
  case (1 n)
  show ?case
  proof (cases "n < 10")
    case True
    with "1.prems" show ?thesis by (auto simp: str_nat.simps[of n])
  next
    case False
    with "1.prems" have "c \<in> set (str_nat (n div 10)) \<or> c = digit_char (n mod 10)"
      by (auto simp: str_nat.simps[of n])
    then show ?thesis
    proof
      assume "c \<in> set (str_nat (n div 10))"
      with False "1.IH" show ?thesis by simp
    next
      assume "c = digit_char (n mod 10)"
      then show ?thesis by (intro exI[of _ "n mod 10"]) simp
    qed
  qed
qed

lemma str_nat_nonempty: "str_nat n \<noteq> []"
  by (subst str_nat.simps) simp

lemma str_nat_inj: "str_nat m = str_nat n \<Longrightarrow> m = n"
proof (induction m arbitrary: n rule: str_nat.induct)
  case (1 m)
  show ?case
  proof (cases "m < 10")
    case True
    note m = this
    show ?thesis
    proof (cases "n < 10")
      case True
      with m "1.prems" show ?thesis
        by (simp add: str_nat.simps[of m] str_nat.simps[of n] digit_char_inj)
    next
      case False
      with m "1.prems" have "[digit_char m] = str_nat (n div 10) @ [digit_char (n mod 10)]"
        by (simp add: str_nat.simps[of m] str_nat.simps[of n])
      then show ?thesis using str_nat_nonempty[of "n div 10"] by simp
    qed
  next
    case False
    note m = this
    show ?thesis
    proof (cases "n < 10")
      case True
      with m "1.prems" have "[digit_char n] = str_nat (m div 10) @ [digit_char (m mod 10)]"
        by (simp add: str_nat.simps[of m] str_nat.simps[of n])
      then show ?thesis using str_nat_nonempty[of "m div 10"] by simp
    next
      case False
      with m "1.prems" have e: "str_nat (m div 10) @ [digit_char (m mod 10)] = str_nat (n div 10) @ [digit_char (n mod 10)]"
        by (simp add: str_nat.simps[of m] str_nat.simps[of n])
      then have "str_nat (m div 10) = str_nat (n div 10)" and d: "digit_char (m mod 10) = digit_char (n mod 10)"
        by simp_all
      with m "1.IH" have "m div 10 = n div 10" by simp
      moreover from d have "m mod 10 = n mod 10" by (simp add: digit_char_inj)
      ultimately show ?thesis by (metis div_mult_mod_eq)
    qed
  qed
qed


lemma str_nat_no_sep:
  "c \<in> {CHR ''_'', CHR ''/'', CHR ''-'', CHR ''.''} \<Longrightarrow> c \<notin> set (str_nat n)"
proof
  assume c: "c \<in> {CHR ''_'', CHR ''/'', CHR ''-'', CHR ''.''}" and "c \<in> set (str_nat n)"
  then obtain d where "d < 10" and "c = digit_char d"
    using str_nat_chars by blast
  with digit_not_sep[of d] c show False by (simp only:) 
qed

lemma str_int_nonempty: "str_int i \<noteq> []"
  by (simp add: str_int_def str_nat_nonempty)

lemma str_int_no_sep: "c \<in> {CHR ''_'', CHR ''/'', CHR ''.''} \<Longrightarrow> c \<notin> set (str_int i)"
  using str_nat_no_sep[of c] by (auto simp: str_int_def)

lemma str_int_inj: "str_int i = str_int j \<Longrightarrow> i = j"
proof -
  assume e: "str_int i = str_int j"
  have hd_nat: "\<And>n. hd (str_nat n) \<noteq> CHR ''-''"
    using str_nat_no_sep[of "CHR ''-''"] str_nat_nonempty hd_in_set by (metis insertCI)
  show ?thesis
  proof (cases "i < 0")
    case True
    note i = this
    show ?thesis
    proof (cases "j < 0")
      case True
      with i e have "nat (- i) = nat (- j)"
        by (auto simp: str_int_def dest: str_nat_inj)
      with i True show ?thesis by simp
    next
      case False
      with i e have "hd (str_nat (nat j)) = CHR ''-''"
        by (simp add: str_int_def) (metis list.sel(1))
      with hd_nat show ?thesis by simp
    qed
  next
    case False
    note i = this
    show ?thesis
    proof (cases "j < 0")
      case True
      with i e have "hd (str_nat (nat i)) = CHR ''-''"
        by (simp add: str_int_def)
      with hd_nat show ?thesis by simp
    next
      case False
      with i e have "nat i = nat j"
        by (auto simp: str_int_def dest: str_nat_inj)
      with i False show ?thesis by simp
    qed
  qed
qed

lemma split_sep_none: "c \<notin> set s \<Longrightarrow> split_sep c s = [s]"
  by (induction s) auto

lemma parse_path_single:
  assumes "CHR ''/'' \<notin> set s" and "s \<noteq> []" and "s \<noteq> ''.''"
  shows "parse_path s = Path [] [s]"
proof -
  from assms(1,2) have "take 1 s \<noteq> ''/''"
    by (cases s) auto
  then have "splitroot s = ([], s)"
    by (simp add: splitroot_def)
  with assms show ?thesis
    by (simp add: parse_path_def split_sep_none)
qed

lemma joinpath_single:
  assumes "CHR ''/'' \<notin> set s" and "s \<noteq> []" and "s \<noteq> ''.''"
  shows "joinpath p s = Path (root p) (parts p @ [s])"
proof -
  from assms(1,2) have "take 1 s \<noteq> ''/''"
    by (cases s) auto
  with assms show ?thesis
    by (simp add: joinpath_def parse_path_single)
qed

lemma base_dir_parts:
  assumes "CHR ''/'' \<notin> set version"
  shows "base_dir home version = Path (root home) (parts home @ [''experiments'', ''yolov8'' @ version])"
  using assms
  by (simp add: base_dir_def joinpath_def parse_path_def splitroot_def split_sep_none)

lemma experiment_name_no_slash:
  "CHR ''/'' \<notin> set optimizer \<Longrightarrow> CHR ''/'' \<notin> set (experiment_name epoch batch_size optimizer)"
  using str_int_no_sep[of "CHR ''/''"] by (simp add: experiment_name_def)

lemma experiment_path_parts:
  assumes "CHR ''/'' \<notin> set version" and "CHR ''/'' \<notin> set optimizer"
  shows "experiment_path home version epoch batch_size optimizer =
    Path (root home) (parts home @
      [''experiments'', ''yolov8'' @ version, experiment_name epoch batch_size optimizer])"
proof -
  have "experiment_name epoch batch_size optimizer \<noteq> []"
    and "experiment_name epoch batch_size optimizer \<noteq> ''.''"
    by (simp_all add: experiment_name_def)
  with assms show ?thesis
    by (simp add: experiment_path_def joinpath_single experiment_name_no_slash base_dir_parts)
qed

lemma append_sep_inj:
  "c \<notin> set xs \<Longrightarrow> c \<notin> set xs' \<Longrightarrow> xs @ c # ys = xs' @ c # ys' \<Longrightarrow> xs = xs' \<and> ys = ys'"
proof (induction xs arbitrary: xs')
  case Nil
  then show ?case by (cases xs') auto
next
  case (Cons x xs)
  then show ?case by (cases xs') auto
qed

lemma experiment_name_inj:
  assumes "experiment_name e b opt = experiment_name e' b' opt'"
  shows "e = e' \<and> b = b' \<and> opt = opt'"
proof -
  from assms have 1: "str_int e @ CHR ''_'' # (''batch_'' @ str_int b @ ''_optimizer_'' @ opt) =
      str_int e' @ CHR ''_'' # (''batch_'' @ str_int b' @ ''_optimizer_'' @ opt')"
    by (simp add: experiment_name_def)
  have ne: "\<And>i. CHR ''_'' \<notin> set (str_int i)"
    using str_int_no_sep by simp
  from append_sep_inj[OF ne ne 1] have e: "str_int e = str_int e'"
    and 2: "str_int b @ CHR ''_'' # (''optimizer_'' @ opt) = str_int b' @ CHR ''_'' # (''optimizer_'' @ opt')"
    by simp_all
  from append_sep_inj[OF ne ne 2] have "str_int b = str_int b'" and "opt = opt'"
    by simp_all
  with e show ?thesis by (simp add: str_int_inj)
qed

section \<open>One run\<close>

lemma grid_length: "length grid = 160"
  by (simp add: grid_def versions_def epochs_def batch_sizes_def optimizers_def)

lemma grid_distinct: "distinct grid"
  by (simp add: grid_def versions_def epochs_def batch_sizes_def optimizers_def)

lemma trace_logged [simp]: "trace (logged ev w) = trace w @ [ev]"
  by (simp add: logged_def)

lemma trace_effect [simp]: "trace (effect X ev w) = trace w @ [ev]"
  by (simp add: effect_def)

lemma globals_logged [simp]:
  "HOME (logged ev w) = HOME w" "DATASETS_PATH (logged ev w) = DATASETS_PATH w"
  "BASE (logged ev w) = BASE w" "fs (logged ev w) = fs w"
  by (simp_all add: logged_def)

lemma globals_effect [simp]:
  "HOME (effect X ev w) = HOME w" "DATASETS_PATH (effect X ev w) = DATASETS_PATH w"
  "BASE (effect X ev w) = BASE w"
  by (simp_all add: effect_def)

lemma events_sinceI:
  "trace (world_of r) = trace w @ es \<Longrightarrow> events_since w r = es"
  by (simp add: events_since_def)

lemma train_run:
  fixes X w version epoch batch_size optimizer dataset_location
  defines "r \<equiv> train_yolo_with_wandb X version epoch batch_size optimizer dataset_location w"
  defines "R \<equiv> run_events X (trace w) (HOME w) (DATASETS_PATH w) version epoch batch_size
                 optimizer dataset_location"
  shows "trace (world_of r) = trace w @ events_since w r"
    and "prefix (events_since w r) R"
    and "raised r = None \<Longrightarrow> events_since w r = R"
    and "HOME (world_of r) = HOME w"
    and "DATASETS_PATH (world_of r) = DATASETS_PATH w"
  unfolding r_def R_def train_yolo_with_wandb_def run_events_def os_chdir_def mkdir_stmt_def
    call_def events_since_def
  by (auto simp: Let_def split: option.splits node.splits prod.splits)

section \<open>Loops\<close>

lemma and_then_assoc:
  "and_then (and_then r f) g = and_then r (\<lambda>a w. and_then (f a w) g)"
  by (cases r) simp_all

lemma and_then_Returns_unit: "and_then r (\<lambda>_ w. Returns () w) = r"
  for r :: "unit outcome"
  by (cases r) simp_all

lemma for_each_append:
  "for_each (xs @ ys) body = (\<lambda>w. and_then (for_each xs body w) (\<lambda>_. for_each ys body))"
proof (induction xs)
  case Nil
  show ?case by (rule ext) simp
next
  case (Cons x xs)
  show ?case by (rule ext) (simp add: Cons.IH and_then_assoc)
qed

lemma for_each_map: "for_each (map g xs) body = for_each xs (\<lambda>x. body (g x))"
proof (induction xs)
  case Nil
  show ?case by (rule ext) simp
next
  case (Cons x xs)
  show ?case by (rule ext) (simp add: Cons.IH)
qed

lemma for_each_concat_map:
  "for_each (concat (map g xs)) body = for_each xs (\<lambda>x. for_each (g x) body)"
proof (induction xs)
  case Nil
  show ?case by (rule ext) simp
next
  case (Cons x xs)
  show ?case by (rule ext) (simp add: Cons.IH for_each_append)
qed

lemma cell_20_flat:
  "cell_20 X w = for_each grid (run_cell X (str_path (joinpath (DATASETS_PATH w) ''TA-5''))) w"
  by (simp add: cell_20_def grid_def for_each_concat_map for_each_map run_cell_def Let_def)

lemma train_calls_append: "train_calls (xs @ ys) = train_calls xs @ train_calls ys"
  by (induction xs rule: train_calls.induct) simp_all

lemma each_train_append:
  "each_train P h (xs @ ys) = (each_train P h xs \<and> each_train P (h @ xs) ys)"
  by (induction P h xs rule: each_train.induct) simp_all

lemma prefix_train_calls: "prefix xs ys \<Longrightarrow> prefix (train_calls xs) (train_calls ys)"
  by (auto simp: prefix_def train_calls_append)

lemma prefix_each_train: "prefix xs ys \<Longrightarrow> each_train P h ys \<Longrightarrow> each_train P h xs"
  by (auto simp: prefix_def each_train_append)

lemma each_train_split:
  "each_train P h es \<Longrightarrow> es = pre @ Train m a # post \<Longrightarrow> P (h @ pre) m a"
  by (simp add: each_train_append)

lemma train_calls_run_events:
  "train_calls (run_events X h home dp v e b opt loc) =
     [(model_name v, train_kwargs home v e b opt loc
        (select_device (cuda_available X (h @ take 4 (run_events X h home dp v e b opt loc)))))]"
  by (simp add: run_events_def Let_def)

lemma call_config_run:
  "map call_config (train_calls (run_events X h home dp v e b opt loc)) = [cell_config (v, e, b, opt)]"
  by (simp add: run_events_def Let_def call_config_def cell_config_def train_kwargs_def)

lemma run_cell_run:
  fixes X loc v e b opt w
  defines "r \<equiv> run_cell X loc (v, e, b, opt) w"
  defines "R \<equiv> run_events X (trace w) (HOME w) (DATASETS_PATH w) v e b opt loc"
  shows "trace (world_of r) = trace w @ events_since w r"
    and "prefix (events_since w r) R"
    and "raised r = None \<Longrightarrow> events_since w r = R"
    and "HOME (world_of r) = HOME w"
    and "DATASETS_PATH (world_of r) = DATASETS_PATH w"
  unfolding r_def R_def run_cell_def
  using train_run[where X=X and version=v and epoch=e and batch_size=b and optimizer=opt and dataset_location=loc and w=w] by simp_all

lemma grid_loop:
  assumes P: "\<And>h v e b opt. each_train P h (run_events X h home dp v e b opt loc)"
  shows "HOME w = home \<Longrightarrow> DATASETS_PATH w = dp \<Longrightarrow>
    \<exists>es. trace (world_of (for_each cells (run_cell X loc) w)) = trace w @ es \<and>
      HOME (world_of (for_each cells (run_cell X loc) w)) = home \<and>
      DATASETS_PATH (world_of (for_each cells (run_cell X loc) w)) = dp \<and>
      prefix (map call_config (train_calls es)) (map cell_config cells) \<and>
      (raised (for_each cells (run_cell X loc) w) = None \<longrightarrow>
         map call_config (train_calls es) = map cell_config cells) \<and>
      each_train P (trace w) es"
proof (induction cells arbitrary: w)
  case Nil
  then show ?case by simp
next
  case (Cons c cs)
  obtain v e b opt where c: "c = (v, e, b, opt)"
    by (cases c) auto
  define r1 where "r1 = run_cell X loc (v, e, b, opt) w"
  define R where "R = run_events X (trace w) home dp v e b opt loc"
  define es1 where "es1 = events_since w r1"
  have tr1: "trace (world_of r1) = trace w @ es1"
    and pre1: "prefix es1 R"
    and ret1: "raised r1 = None \<Longrightarrow> es1 = R"
    and home1: "HOME (world_of r1) = home"
    and dp1: "DATASETS_PATH (world_of r1) = dp"
    unfolding r1_def R_def es1_def
    using run_cell_run[where X=X and loc=loc and v=v and e=e and b=b and opt=opt and w=w] Cons.prems by simp_all
  have cfgR: "map call_config (train_calls R) = [cell_config c]"
    unfolding R_def c by (rule call_config_run)
  have PR: "each_train P (trace w) R"
    unfolding R_def by (rule P)
  show ?case
  proof (cases r1)
    case (Returns u w1)
    with ret1 have es1: "es1 = R" by simp
    from Returns tr1 home1 dp1 have w1: "trace w1 = trace w @ R" "HOME w1 = home" "DATASETS_PATH w1 = dp"
      by (simp_all add: es1)
    let ?r2 = "for_each cs (run_cell X loc) w1"
    from Cons.IH[OF w1(2,3)] obtain es2 where IH2:
      "trace (world_of ?r2) = trace w1 @ es2 \<and>
       HOME (world_of ?r2) = home \<and>
       DATASETS_PATH (world_of ?r2) = dp \<and>
       prefix (map call_config (train_calls es2)) (map cell_config cs) \<and>
       (raised ?r2 = None \<longrightarrow> map call_config (train_calls es2) = map cell_config cs) \<and>
       each_train P (trace w1) es2" ..
    from IH2 have tr2: "trace (world_of ?r2) = trace w1 @ es2" by (rule conjunct1)
    from IH2 have g2: "HOME (world_of ?r2) = home" "DATASETS_PATH (world_of ?r2) = dp" by simp_all
    from IH2 have pre2: "prefix (map call_config (train_calls es2)) (map cell_config cs)" by simp
    from IH2 have ret2: "raised ?r2 = None \<longrightarrow> map call_config (train_calls es2) = map cell_config cs"
      by simp
    from IH2 have P2: "each_train P (trace w1) es2" by simp
    have whole: "for_each (c # cs) (run_cell X loc) w = ?r2"
      using Returns by (simp add: c r1_def[symmetric])
    have "trace (world_of ?r2) = trace w @ (R @ es2)"
      using tr2 w1 by simp
    moreover have "prefix (map call_config (train_calls (R @ es2))) (map cell_config (c # cs))"
      using pre2 cfgR by (simp add: train_calls_append)
    moreover have "raised ?r2 = None \<longrightarrow>
        map call_config (train_calls (R @ es2)) = map cell_config (c # cs)"
      using ret2 cfgR by (simp add: train_calls_append)
    moreover have "each_train P (trace w) (R @ es2)"
      using PR P2 w1 by (simp add: each_train_append)
    ultimately show ?thesis
      unfolding whole using g2 by (intro exI[of _ "R @ es2"] conjI) simp_all
  next
    case (Raises err w1)
    have whole: "for_each (c # cs) (run_cell X loc) w = r1"
      using Raises by (simp add: c r1_def[symmetric])
    have "prefix (map call_config (train_calls es1)) (map call_config (train_calls R))"
      using pre1 by (simp add: prefix_train_calls map_mono_prefix)
    then have "prefix (map call_config (train_calls es1)) [cell_config c]"
      unfolding cfgR .
    moreover have "prefix [cell_config c] (map cell_config (c # cs))"
      by simp
    ultimately have "prefix (map call_config (train_calls es1)) (map cell_config (c # cs))"
      by (rule prefix_order.trans)
    moreover have "raised r1 = Some err"
      using Raises by simp
    moreover have "each_train P (trace w) es1"
      using pre1 PR by (rule prefix_each_train)
    ultimately show ?thesis
      unfolding whole using tr1 home1 dp1 by (intro exI[of _ es1] conjI) simp_all
  qed
qed

section \<open>More on paths\<close>

lemma split_sep_append:
  "c \<notin> set xs \<Longrightarrow> split_sep c (xs @ c # ys) = xs # split_sep c ys"
  by (induction xs) (auto split: list.splits)

lemma joinpath_three:
  assumes a: "CHR ''/'' \<notin> set a" "a \<noteq> []" "a \<noteq> ''.''"
    and b: "CHR ''/'' \<notin> set b" "b \<noteq> []" "b \<noteq> ''.''"
    and c: "CHR ''/'' \<notin> set c" "c \<noteq> []" "c \<noteq> ''.''"
  shows "joinpath home (a @ ''/'' @ b @ ''/'' @ c) = Path (root home) (parts home @ [a, b, c])"
proof -
  from a have t: "take 1 (a @ ''/'' @ b @ ''/'' @ c) \<noteq> ''/''"
    by (cases a) auto
  then have "splitroot (a @ ''/'' @ b @ ''/'' @ c) = ([], a @ ''/'' @ b @ ''/'' @ c)"
    by (simp add: splitroot_def)
  moreover have "split_sep CHR ''/'' (a @ ''/'' @ b @ ''/'' @ c) = [a, b, c]"
    using a b c by (simp add: split_sep_append split_sep_none)
  ultimately have "parse_path (a @ ''/'' @ b @ ''/'' @ c) = Path [] [a, b, c]"
    using a b c by (simp add: parse_path_def)
  with t show ?thesis
    by (simp add: joinpath_def)
qed

lemma valid_config_no_slash:
  "valid_config v e b opt \<Longrightarrow> CHR ''/'' \<notin> set v \<and> CHR ''/'' \<notin> set opt"
  by (auto simp: valid_config_def)

lemma str_int_50: "str_int 50 = ''50''" by code_simp
lemma str_int_2: "str_int 2 = ''2''" by code_simp
lemma str_int_100: "str_int 100 = ''100''" by code_simp

section \<open>Runs that return\<close>

lemma lookup_no_file: "\<forall>q. f q \<noteq> Some File \<Longrightarrow> lookup f p \<noteq> Some File"
  by (simp add: lookup_def)

lemma lookup_cases_no_file:
  "\<forall>q. f q \<noteq> Some File \<Longrightarrow> lookup f p = None \<or> lookup f p = Some Dir"
  using lookup_no_file[of f p] by (cases "lookup f p") (auto intro: node.exhaust)

lemma mkdir_existing: "lookup f p = Some Dir \<Longrightarrow> mkdir_parents f p exist_ok = (if exist_ok then (None, f) else (Some FileExistsError, f))"
  by (subst mkdir_parents.simps) (simp add: os_mkdir_def is_dir_def)

lemma mkdir_no_parents_ok:
  assumes nf: "\<forall>q. f q \<noteq> Some File" and par: "lookup f (parent p) = Some Dir"
  shows "\<exists>f'. mkdir_no_parents f p True = (None, f') \<and> (\<forall>q. f' q \<noteq> Some File) \<and>
           (\<forall>q. lookup f q = Some Dir \<longrightarrow> lookup f' q = Some Dir) \<and> lookup f' p = Some Dir"
  using lookup_cases_no_file[OF nf, of p]
proof
  assume n: "lookup f p = None"
  with par have "mkdir_no_parents f p True = (None, f(p \<mapsto> Dir))"
    by (simp add: mkdir_no_parents_def os_mkdir_def)
  moreover have "\<forall>q. (f(p \<mapsto> Dir)) q \<noteq> Some File"
    using nf by simp
  moreover have "\<forall>q. lookup f q = Some Dir \<longrightarrow> lookup (f(p \<mapsto> Dir)) q = Some Dir"
    by (simp add: lookup_def)
  moreover have "lookup (f(p \<mapsto> Dir)) p = Some Dir"
    by (simp add: lookup_def)
  ultimately show ?thesis by blast
next
  assume d: "lookup f p = Some Dir"
  then have "mkdir_no_parents f p True = (None, f)"
    by (simp add: mkdir_no_parents_def os_mkdir_def is_dir_def)
  with nf d show ?thesis by simp
qed

lemma mkdir_parents_ok:
  "\<forall>q. f q \<noteq> Some File \<Longrightarrow>
     \<exists>f'. mkdir_parents f p True = (None, f') \<and> (\<forall>q. f' q \<noteq> Some File) \<and>
           (\<forall>q. lookup f q = Some Dir \<longrightarrow> lookup f' q = Some Dir) \<and> lookup f' p = Some Dir"
proof (induction "length (parts p)" arbitrary: p f rule: less_induct)
  case less
  note nf = less.prems
  show ?case
  proof (cases "lookup f (parent p) = Some Dir \<or> lookup f p = Some Dir")
    case True
    then show ?thesis
    proof
      assume par: "lookup f (parent p) = Some Dir"
      have "mkdir_parents f p True = mkdir_no_parents f p True"
        by (subst mkdir_parents.simps)
           (auto simp: mkdir_no_parents_def os_mkdir_def par split: sum.splits if_splits)
      with mkdir_no_parents_ok[OF nf par] show ?thesis by simp
    next
      assume "lookup f p = Some Dir"
      with nf show ?thesis by (simp add: mkdir_existing)
    qed
  next
    case False
    with lookup_cases_no_file[OF nf, of "parent p"] lookup_cases_no_file[OF nf, of p]
    have n: "lookup f (parent p) = None" and np: "lookup f p = None"
      by blast+
    then have ne: "parts p \<noteq> []"
      by (auto simp: lookup_def parent_def)
    then have shorter: "length (parts (parent p)) < length (parts p)"
      by (simp add: parent_def)
    then have pp: "parent p \<noteq> p"
      by auto
    from less.hyps[OF shorter nf] obtain f1 where
      f1: "mkdir_parents f (parent p) True = (None, f1) \<and> (\<forall>q. f1 q \<noteq> Some File) \<and>
           (\<forall>q. lookup f q = Some Dir \<longrightarrow> lookup f1 q = Some Dir) \<and>
           lookup f1 (parent p) = Some Dir" ..
    have "os_mkdir f p = Inl FileNotFoundError"
      using np n by (simp add: os_mkdir_def)
    then have "mkdir_parents f p True = mkdir_no_parents f1 p True"
      using pp f1 by (subst mkdir_parents.simps) simp
    moreover from f1 have nf1: "\<forall>q. f1 q \<noteq> Some File" and par1: "lookup f1 (parent p) = Some Dir"
      by simp_all
    from mkdir_no_parents_ok[OF nf1 par1] obtain f2 where
      f2: "mkdir_no_parents f1 p True = (None, f2) \<and> (\<forall>q. f2 q \<noteq> Some File) \<and>
           (\<forall>q. lookup f1 q = Some Dir \<longrightarrow> lookup f2 q = Some Dir) \<and> lookup f2 p = Some Dir" ..
    moreover have "\<forall>q. lookup f q = Some Dir \<longrightarrow> lookup f2 q = Some Dir"
      using f1 f2 by simp
    ultimately show ?thesis
      using f2 by (intro exI[of _ f2]) simp
  qed
qed

lemma mkdir_parents_made:
  "mkdir_parents f p True = (None, f') \<Longrightarrow> lookup f' p = Some Dir"
  by (subst (asm) mkdir_parents.simps)
     (auto simp: os_mkdir_def mkdir_no_parents_def is_dir_def lookup_def
       split: sum.splits if_splits option.splits node.splits prod.splits)

lemma train_returns:
  assumes quiet: "\<forall>h ev. outcome_of X h ev = None" "\<forall>h ev f. fs_effect X h ev f = f"
    and nf: "\<forall>q. fs w q \<noteq> Some File"
    and dp: "lookup (fs w) (DATASETS_PATH w) = Some Dir"
  shows "raised (train_yolo_with_wandb X v e b opt loc w) = None \<and>
         (\<forall>q. fs (world_of (train_yolo_with_wandb X v e b opt loc w)) q \<noteq> Some File) \<and>
         lookup (fs (world_of (train_yolo_with_wandb X v e b opt loc w))) (DATASETS_PATH w) = Some Dir"
proof -
  from mkdir_parents_ok[OF nf, of "experiment_path (HOME w) v e b opt"] obtain f' where
    f': "mkdir_parents (fs w) (experiment_path (HOME w) v e b opt) True = (None, f') \<and>
         (\<forall>q. f' q \<noteq> Some File) \<and>
         (\<forall>q. lookup (fs w) q = Some Dir \<longrightarrow> lookup f' q = Some Dir) \<and>
         lookup f' (experiment_path (HOME w) v e b opt) = Some Dir" ..
  then show ?thesis
    using quiet dp
    by (simp add: train_yolo_with_wandb_def os_chdir_def mkdir_stmt_def Path_mkdir_def call_def
        effect_def logged_def Let_def)
qed

lemma train_run_finish:
  fixes X w version epoch batch_size optimizer dataset_location
  defines "r \<equiv> train_yolo_with_wandb X version epoch batch_size optimizer dataset_location w"
  defines "R \<equiv> run_events X (trace w) (HOME w) (DATASETS_PATH w) version epoch batch_size
                 optimizer dataset_location"
  assumes "R ! 5 \<in> set (events_since w r)" and "outcome_of X (trace w @ take 5 R) (R ! 5) = None"
  shows "WandbFinish \<in> set (events_since w r)"
  using assms(3,4)
  unfolding r_def R_def train_yolo_with_wandb_def run_events_def os_chdir_def mkdir_stmt_def
    call_def events_since_def
  by (auto simp: Let_def split: option.splits node.splits prod.splits)

lemma run_cell_pair:
  "run_cell X loc (v, e, b, opt) = train_yolo_with_wandb X v e b opt loc"
  by (simp add: run_cell_def)

lemma grid_returns:
  assumes quiet: "\<forall>h ev. outcome_of X h ev = None" "\<forall>h ev f. fs_effect X h ev f = f"
  shows "\<forall>q. fs w q \<noteq> Some File \<Longrightarrow> lookup (fs w) (DATASETS_PATH w) = Some Dir \<Longrightarrow>
     raised (for_each cells (run_cell X loc) w) = None"
proof (induction cells arbitrary: w)
  case Nil
  show ?case by simp
next
  case (Cons c cs)
  obtain v e b opt where c: "c = (v, e, b, opt)"
    by (cases c) auto
  let ?r = "train_yolo_with_wandb X v e b opt loc w"
  from train_returns[OF quiet Cons.prems, of v e b opt loc]
  have r: "raised ?r = None" and nf: "\<forall>q. fs (world_of ?r) q \<noteq> Some File"
    and dp: "lookup (fs (world_of ?r)) (DATASETS_PATH w) = Some Dir"
    by simp_all
  from r obtain u w1 where w1: "?r = Returns u w1"
    by (cases ?r) simp_all
  have "DATASETS_PATH w1 = DATASETS_PATH w"
    using train_run(5)[where X=X and version=v and epoch=e and batch_size=b and optimizer=opt
        and dataset_location=loc and w=w] w1 by simp
  with nf dp w1 have "raised (for_each cs (run_cell X loc) w1) = None"
    by (intro Cons.IH) simp_all
  with w1 show ?case
    by (simp add: c run_cell_pair)
qed

lemma for_each_first_raises:
  "raised (body x w) \<noteq> None \<Longrightarrow> for_each (x # xs) body w = body x w"
  by (cases "body x w") simp_all

lemma grid_first: "grid = (''n'', 50, 2, ''Adam'') # tl grid"
  by (simp add: grid_def versions_def epochs_def batch_sizes_def optimizers_def)


lemma ready_world_quiet_returns: "raised (cell_20 quiet ready_world) = None"
proof -
  have "\<forall>q. fs ready_world q \<noteq> Some File"
    by (simp add: ready_world_def fresh_world_def)
  moreover have "lookup (fs ready_world) (DATASETS_PATH ready_world) = Some Dir"
    by (simp add: ready_world_def fresh_world_def lookup_def)
  moreover have "\<forall>h ev. outcome_of quiet h ev = None" "\<forall>h ev f. fs_effect quiet h ev f = f"
    by (simp_all add: quiet_def)
  ultimately show ?thesis
    by (simp add: cell_20_flat grid_returns)
qed

lemma first_run_out_of_memory:
  "raised (run_cell out_of_memory ''/work/yolov8/datasets/TA-5'' (''n'', 50, 2, ''Adam'') ready_world)
     = Some (OtherError ''CUDA out of memory'')"
  by code_simp

lemma ready_location: "str_path (joinpath (DATASETS_PATH ready_world) ''TA-5'') = ''/work/yolov8/datasets/TA-5''"
  by code_simp

section \<open>The arguments of the training calls; the cells before the grid search\<close>

lemma each_train_run_device:
  "each_train (\<lambda>h m a. arg_weight_decay a = 0.0005 \<and> arg_warmup_epochs a = 3 \<and>
       (\<exists>h'. h = h' @ [CudaIsAvailable] \<and>
          arg_device a = (if cuda_available X h' then ''cuda'' else ''cpu'')))
     h (run_events X h home dp v e b opt loc)"
  by (simp add: run_events_def Let_def train_kwargs_def select_device_def)

lemma each_train_run_data:
  "each_train (\<lambda>h m a. arg_data a = loc @ ''/data.yaml'')
     h (run_events X h home dp v e b opt loc)"
  by (simp add: run_events_def Let_def train_kwargs_def)

lemma cell_20_each_train:
  assumes P: "\<And>h v e b opt. each_train P h
      (run_events X h (HOME w) (DATASETS_PATH w) v e b opt (str_path (joinpath (DATASETS_PATH w) ''TA-5'')))"
    and tr: "trace (world_of (cell_20 X w)) = trace w @ pre @ Train m a # post"
  shows "P (trace w @ pre) m a"
proof -
  let ?loc = "str_path (joinpath (DATASETS_PATH w) ''TA-5'')"
  from grid_loop[where P=P and X=X and home="HOME w" and dp="DATASETS_PATH w"
      and loc="?loc" and w=w and cells=grid, OF P refl refl]
  obtain es where es: "trace (world_of (for_each grid (run_cell X ?loc) w)) = trace w @ es"
    and ok: "each_train P (trace w) es"
    by auto
  from es tr have "es = pre @ Train m a # post"
    by (simp add: cell_20_flat)
  with ok show ?thesis
    by (rule each_train_split)
qed

lemma out_of_memory_grid:
  "cell_20 out_of_memory ready_world =
     run_cell out_of_memory ''/work/yolov8/datasets/TA-5'' (''n'', 50, 2, ''Adam'') ready_world"
proof -
  have "for_each ((''n'', 50, 2, ''Adam'') # tl grid)
          (run_cell out_of_memory ''/work/yolov8/datasets/TA-5'') ready_world =
        run_cell out_of_memory ''/work/yolov8/datasets/TA-5'' (''n'', 50, 2, ''Adam'') ready_world"
    by (rule for_each_first_raises) (simp add: first_run_out_of_memory)
  then show ?thesis
    unfolding cell_20_flat ready_location using grid_first by simp
qed

lemma out_of_memory_trace:
  "trace (world_of (run_cell out_of_memory ''/work/yolov8/datasets/TA-5'' (''n'', 50, 2, ''Adam'')
      ready_world)) =
   [Chdir (Path ''/'' [''work'', ''yolov8'', ''datasets'']),
    Mkdir (Path ''/'' [''work'', ''yolov8'', ''experiments'', ''yolov8n'',
      ''epoch_50_batch_2_optimizer_Adam'']),
    WandbInit (init_args (Path ''/'' [''work'', ''yolov8'']) ''n'' 50 2 ''Adam''),
    YoloLoad ''yolov8n.pt'',
    CudaIsAvailable,
    Train ''yolov8n.pt''
      (train_kwargs (Path ''/'' [''work'', ''yolov8'']) ''n'' 50 2 ''Adam''
         ''/work/yolov8/datasets/TA-5'' ''cpu'')]"
  by code_simp

lemma rel_and_then:
  assumes "\<And>a b c. R a b \<Longrightarrow> R b c \<Longrightarrow> R a c"
    and "R w (world_of r)"
    and "\<And>a w1. R w1 (world_of (f a w1))"
  shows "R w (world_of (and_then r f))"
proof (cases r)
  case (Returns a w1)
  with assms(2) have "R w w1" by simp
  from assms(1)[OF this assms(3)[of w1 a]] Returns show ?thesis by simp
next
  case (Raises e w1)
  with assms(2) show ?thesis by simp
qed

lemma log_grows_trans: "log_grows Q a b \<Longrightarrow> log_grows Q b c \<Longrightarrow> log_grows Q a c"
  by (auto simp: log_grows_def)

lemma log_grows_refl: "log_grows Q w w"
  by (simp add: log_grows_def)

lemma same_globals_trans: "same_globals a b \<Longrightarrow> same_globals b c \<Longrightarrow> same_globals a c"
  by (simp add: same_globals_def)

lemma keeps_key_trans: "keeps_key X a b \<Longrightarrow> keeps_key X b c \<Longrightarrow> keeps_key X a c"
  by (auto simp: keeps_key_def)

lemma log_grows_one: "trace w' = trace w @ [ev] \<Longrightarrow> Q ev \<Longrightarrow> log_grows Q w w'"
  by (simp add: log_grows_def)

lemma call_log: "Q ev \<Longrightarrow> log_grows Q w (world_of (call X ev w))"
  by (auto simp: call_def intro!: log_grows_one split: option.splits)

lemma call_globals: "same_globals w (world_of (call X ev w))"
  by (simp add: call_def same_globals_def split: option.splits)

lemma call_key: "keeps_key X w (world_of (call X ev w))"
  by (simp add: call_def keeps_key_def effect_def logged_def split: option.splits)

lemma shell_log: "Q (Shell c) \<Longrightarrow> log_grows Q w (world_of (shell_escape X c w))"
  by (auto simp: shell_escape_def intro!: log_grows_one)

lemma shell_globals: "same_globals w (world_of (shell_escape X c w))"
  by (simp add: shell_escape_def same_globals_def)

lemma shell_key: "keeps_key X w (world_of (shell_escape X c w))"
  by (simp add: shell_escape_def keeps_key_def effect_def logged_def)

lemma magic_cd_log: "Q (MagicCd p) \<Longrightarrow> log_grows Q w (world_of (magic_cd p w))"
  by (auto simp: magic_cd_def intro!: log_grows_one)

lemma magic_cd_globals: "same_globals w (world_of (magic_cd p w))"
  by (simp add: magic_cd_def same_globals_def)

lemma magic_cd_key: "keeps_key X w (world_of (magic_cd p w))"
  by (simp add: magic_cd_def keeps_key_def logged_def)

lemma mkdir_log: "Q (Mkdir p) \<Longrightarrow> log_grows Q w (world_of (mkdir_stmt p w))"
  by (auto simp: mkdir_stmt_def intro!: log_grows_one split: prod.splits option.splits)

lemma mkdir_globals: "same_globals w (world_of (mkdir_stmt p w))"
  by (simp add: mkdir_stmt_def same_globals_def split: prod.splits option.splits)

lemma mkdir_key: "keeps_key X w (world_of (mkdir_stmt p w))"
  by (simp add: mkdir_stmt_def keeps_key_def logged_def split: prod.splits option.splits)

lemma chdir_log: "Q (Chdir p) \<Longrightarrow> log_grows Q w (world_of (os_chdir p w))"
  by (auto simp: os_chdir_def intro!: log_grows_one split: option.splits node.splits)

lemma chdir_globals: "same_globals w (world_of (os_chdir p w))"
  by (simp add: os_chdir_def same_globals_def split: option.splits node.splits)

lemma ensure_log:
  "Q (ImportModule (case i of None \<Rightarrow> p | Some s \<Rightarrow> if s = [] then p else s)) \<Longrightarrow>
   Q (PipInstall (p @ v)) \<Longrightarrow>
   log_grows Q w (world_of (ensure_package_installed X p i v w))"
  by (auto simp: ensure_package_installed_def call_def log_grows_def Let_def split: option.splits)

lemma ensure_globals: "same_globals w (world_of (ensure_package_installed X p i v w))"
  by (simp add: ensure_package_installed_def call_def same_globals_def Let_def split: option.splits)

lemma ensure_key: "keeps_key X w (world_of (ensure_package_installed X p i v w))"
  by (simp add: ensure_package_installed_def call_def keeps_key_def effect_def logged_def Let_def
      split: option.splits)

lemma load_dotenv_log: "Q LoadDotenv \<Longrightarrow> log_grows Q w (world_of (load_dotenv X w))"
  by (auto simp: load_dotenv_def call_def intro!: log_grows_one split: option.splits)

lemma load_dotenv_globals: "same_globals w (world_of (load_dotenv X w))"
  by (simp add: load_dotenv_def call_def same_globals_def split: option.splits)

lemma load_dotenv_key: "keeps_key X w (world_of (load_dotenv X w))"
  by (simp add: load_dotenv_def call_def keeps_key_def effect_def logged_def split: option.splits)

lemma require_api_key_same:
  "trace (world_of (require_api_key w)) = trace w"
  "same_globals w (world_of (require_api_key w))"
  by (simp_all add: require_api_key_def same_globals_def Let_def)


lemmas and_then_log = rel_and_then[where R="log_grows Q", OF log_grows_trans] for Q
lemmas and_then_globals = rel_and_then[where R=same_globals, OF same_globals_trans]
lemmas and_then_key = rel_and_then[where R="keeps_key X", OF keeps_key_trans] for X

lemma cell_2_rel:
  "log_grows setup_event w (world_of (cell_2 X w))"
  "same_globals w (world_of (cell_2 X w))"
  "keeps_key X w (world_of (cell_2 X w))"
  "cwd (world_of (cell_2 X w)) = cwd w"
  unfolding cell_2_def
  by (simp_all add: shell_log shell_globals shell_key) (simp add: shell_escape_def effect_def logged_def)

lemma cell_4_rel:
  "log_grows setup_event w (world_of (cell_4 X w))"
  "keeps_key X w (world_of (cell_4 X w))"
  "DATASETS_PATH (world_of (cell_4 X w)) =
     joinpath (joinpath (parent (cwd w)) ''yolov8'') ''datasets''"
proof -
  define w4 where "w4 = w\<lparr>BASE := parent (cwd w), HOME := joinpath (parent (cwd w)) ''yolov8'',
    DATASETS_PATH := joinpath (joinpath (parent (cwd w)) ''yolov8'') ''datasets''\<rparr>"
  have c: "cell_4 X w = mkdir_stmt (DATASETS_PATH w4) w4"
    by (simp add: cell_4_def Let_def w4_def)
  have w4: "trace w4 = trace w" "environ w4 = environ w"
    "DATASETS_PATH w4 = joinpath (joinpath (parent (cwd w)) ''yolov8'') ''datasets''"
    by (simp_all add: w4_def)
  from mkdir_log[of setup_event "DATASETS_PATH w4" w4]
  show "log_grows setup_event w (world_of (cell_4 X w))"
    unfolding c by (simp add: log_grows_def w4(1))
  from mkdir_key[of X w4 "DATASETS_PATH w4"]
  show "keeps_key X w (world_of (cell_4 X w))"
    unfolding c by (simp add: keeps_key_def w4(2))
  from mkdir_globals[of w4 "DATASETS_PATH w4"]
  show "DATASETS_PATH (world_of (cell_4 X w)) =
     joinpath (joinpath (parent (cwd w)) ''yolov8'') ''datasets''"
    unfolding c by (simp add: same_globals_def w4(3))
qed

lemma cell_8_rel:
  "log_grows setup_event w (world_of (cell_8 X w))"
  "same_globals w (world_of (cell_8 X w))"
  "keeps_key X w (world_of (cell_8 X w))"
  unfolding cell_8_def
  by (intro and_then_log and_then_globals and_then_key ensure_log ensure_globals ensure_key
      call_log call_globals call_key; simp)+

lemma cell_10_rel:
  "log_grows setup_event w (world_of (cell_10 X w))"
  "same_globals w (world_of (cell_10 X w))"
  "keeps_key X w (world_of (cell_10 X w))"
  unfolding cell_10_def
  by (intro and_then_log and_then_globals and_then_key call_log call_globals call_key
      magic_cd_log magic_cd_globals magic_cd_key shell_log shell_globals shell_key; simp)+

lemma cell_12_setup_rel:
  "log_grows setup_event w (world_of (cell_12_setup X w))"
  "same_globals w (world_of (cell_12_setup X w))"
  "keeps_key X w (world_of (cell_12_setup X w))"
  unfolding cell_12_setup_def
  by (intro and_then_log and_then_globals and_then_key ensure_log ensure_globals ensure_key
      call_log call_globals call_key load_dotenv_log load_dotenv_globals load_dotenv_key; simp)+

lemma require_api_key_raises:
  "falsy (environ w ''ROBOFLOW_API_KEY'') \<Longrightarrow>
   require_api_key w =
     Raises (ValueError api_key_message) (w\<lparr>api_key := environ w ''ROBOFLOW_API_KEY''\<rparr>)"
  by (simp add: require_api_key_def Let_def)

lemma keeps_key_falsy:
  assumes "keeps_key X w w'"
    and "falsy (environ w ''ROBOFLOW_API_KEY'')"
    and "environ w ''ROBOFLOW_API_KEY'' = None \<longrightarrow> falsy (dotenv_file X ''ROBOFLOW_API_KEY'')"
  shows "falsy (environ w' ''ROBOFLOW_API_KEY'')"
    and "environ w' ''ROBOFLOW_API_KEY'' = None \<longrightarrow> falsy (dotenv_file X ''ROBOFLOW_API_KEY'')"
  using assms by (auto simp: keeps_key_def)

lemma cell_12_aborts:
  assumes "falsy (environ w ''ROBOFLOW_API_KEY'')"
    and "environ w ''ROBOFLOW_API_KEY'' = None \<longrightarrow> falsy (dotenv_file X ''ROBOFLOW_API_KEY'')"
  shows "raised (cell_12 X w) \<noteq> None"
    and "cell_12_setup X w = Returns u w1 \<Longrightarrow>
      cell_12 X w = Raises (ValueError api_key_message)
        (w1\<lparr>api_key := environ w1 ''ROBOFLOW_API_KEY''\<rparr>)"
proof -
  show 2: "cell_12 X w = Raises (ValueError api_key_message)
        (w1\<lparr>api_key := environ w1 ''ROBOFLOW_API_KEY''\<rparr>)"
    if r: "cell_12_setup X w = Returns u w1" for u w1
  proof -
    from cell_12_setup_rel(3)[of X w] r have "keeps_key X w w1" by simp
    from keeps_key_falsy(1)[OF this assms] have "falsy (environ w1 ''ROBOFLOW_API_KEY'')" .
    then show ?thesis
      by (simp add: cell_12_def r require_api_key_raises)
  qed
  show "raised (cell_12 X w) \<noteq> None"
  proof (cases "cell_12_setup X w")
    case (Returns u w1)
    from 2[OF this] show ?thesis by simp
  next
    case (Raises e w1)
    then show ?thesis by (simp add: cell_12_def)
  qed
qed

lemma require_api_key_log: "log_grows Q w (world_of (require_api_key w))"
  by (simp add: log_grows_def require_api_key_def Let_def)

lemma cell_12_log: "log_grows setup_event w (world_of (cell_12 X w))"
  unfolding cell_12_def
  by (intro and_then_log cell_12_setup_rel require_api_key_log)

lemma cells_before_12_log: "log_grows setup_event w (world_of (cells_before_12 X w))"
  unfolding cells_before_12_def
  by (intro and_then_log cell_2_rel(1) cell_4_rel(1) cell_8_rel(1) cell_10_rel(1))

lemma cells_before_12_key: "keeps_key X w (world_of (cells_before_12 X w))"
  unfolding cells_before_12_def
  by (intro and_then_key cell_2_rel(3) cell_4_rel(2) cell_8_rel(3) cell_10_rel(3))

lemma notebook_split:
  "notebook X w =
     and_then (cells_before_12 X w) (\<lambda>_ w. and_then (cell_12 X w) (\<lambda>_ w. cells_after_12 X w))"
  by (simp add: notebook_def cells_before_12_def cells_after_12_def and_then_assoc)

lemma and_then_raises:
  "raised r \<noteq> None \<Longrightarrow> and_then r f = r" for r :: "unit outcome" and f :: "unit \<Rightarrow> world \<Rightarrow> unit outcome"
  by (cases r) simp_all

lemma notebook_aborts:
  assumes "falsy (environ w ''ROBOFLOW_API_KEY'')"
    and "environ w ''ROBOFLOW_API_KEY'' = None \<longrightarrow> falsy (dotenv_file X ''ROBOFLOW_API_KEY'')"
  shows "raised (notebook X w) \<noteq> None"
    and "log_grows setup_event w (world_of (notebook X w))"
    and "cells_before_12 X w = Returns u w0 \<Longrightarrow> cell_12_setup X w0 = Returns u' w1 \<Longrightarrow>
      notebook X w = Raises (ValueError api_key_message)
        (w1\<lparr>api_key := environ w1 ''ROBOFLOW_API_KEY''\<rparr>)"
    and "cells_before_12 X w = Returns u w0 \<Longrightarrow> cell_12_setup X w0 = Returns u' w1 \<Longrightarrow>
      keeps_key X w w1"
proof -
  have key0: "falsy (environ w0 ''ROBOFLOW_API_KEY'')"
    "environ w0 ''ROBOFLOW_API_KEY'' = None \<longrightarrow> falsy (dotenv_file X ''ROBOFLOW_API_KEY'')"
    if r: "cells_before_12 X w = Returns u w0" for u w0
  proof -
    from cells_before_12_key[of X w] r have k: "keeps_key X w w0" by simp
    from keeps_key_falsy[OF k assms]
    show "falsy (environ w0 ''ROBOFLOW_API_KEY'')"
      "environ w0 ''ROBOFLOW_API_KEY'' = None \<longrightarrow> falsy (dotenv_file X ''ROBOFLOW_API_KEY'')"
      by simp_all
  qed
  have whole: "notebook X w = cell_12 X w0" if r: "cells_before_12 X w = Returns u w0" for u w0
    using cell_12_aborts(1)[OF key0[OF r]] by (simp add: notebook_split r and_then_raises)
  show "notebook X w = Raises (ValueError api_key_message)
        (w1\<lparr>api_key := environ w1 ''ROBOFLOW_API_KEY''\<rparr>)"
    if r: "cells_before_12 X w = Returns u w0" and s: "cell_12_setup X w0 = Returns u' w1"
    using cell_12_aborts(2)[OF key0[OF r] s] whole[OF r] by simp
  show "keeps_key X w w1"
    if r: "cells_before_12 X w = Returns u w0" and s: "cell_12_setup X w0 = Returns u' w1"
  proof -
    from cells_before_12_key[of X w] r have "keeps_key X w w0" by simp
    moreover from cell_12_setup_rel(3)[of X w0] s have "keeps_key X w0 w1" by simp
    ultimately show ?thesis by (rule keeps_key_trans)
  qed
  show "raised (notebook X w) \<noteq> None"
  proof (cases "cells_before_12 X w")
    case (Returns u w0)
    from whole[OF this] cell_12_aborts(1)[OF key0[OF Returns]] show ?thesis by simp
  next
    case (Raises e w0)
    then show ?thesis by (simp add: notebook_split)
  qed
  show "log_grows setup_event w (world_of (notebook X w))"
  proof (cases "cells_before_12 X w")
    case (Returns u w0)
    from cells_before_12_log[of w X] Returns have "log_grows setup_event w w0" by simp
    moreover have "log_grows setup_event w0 (world_of (cell_12 X w0))"
      by (rule cell_12_log)
    ultimately show ?thesis
      unfolding whole[OF Returns] by (rule log_grows_trans)
  next
    case (Raises e w0)
    with cells_before_12_log[of w X] show ?thesis by (simp add: notebook_split)
  qed
qed

lemma log_grows_events:
  "log_grows Q w (world_of r) \<Longrightarrow>
     trace (world_of r) = trace w @ events_since w r \<and> list_all Q (events_since w r)"
  by (auto simp: log_grows_def events_since_def)

lemma setup_no_train: "list_all setup_event es \<Longrightarrow> train_calls es = []"
  by (induction es rule: train_calls.induct) simp_all

lemma empty_before_12: "raised (cells_before_12 dotenv_has_key empty_key_world) = None"
  by code_simp

lemma empty_cell_12:
  "raised (cell_12 dotenv_has_key (world_of (cells_before_12 dotenv_has_key empty_key_world))) =
     Some (ValueError api_key_message)"
  by code_simp


lemma fresh_before_12: "raised (cells_before_12 quiet fresh_world) = None"
  by code_simp

lemma fresh_cell_12:
  "raised (cell_12 quiet (world_of (cells_before_12 quiet fresh_world))) =
     Some (ValueError api_key_message)"
  by code_simp

lemma fresh_cell_12_trace:
  "trace (world_of (cell_12 quiet (world_of (cells_before_12 quiet fresh_world)))) =
   [Shell ''nvidia-smi'',
    Mkdir (Path ''/'' [''work'', ''yolov8'', ''datasets'']),
    ImportModule ''ultralytics'',
    ImportModule ''ultralytics'',
    UltralyticsChecks,
    ImportModule ''IPython.display'',
    MagicCd (Path ''/'' [''work'', ''yolov8'']),
    Shell ''yolo task=detect mode=predict model=yolov8n.pt conf=0.25 source=/work/img/test.jpg save=True'',
    DisplayImage ''runs/detect/predict/test.jpg'',
    ImportModule ''dotenv'',
    ImportModule ''roboflow'',
    ImportModule ''os'',
    ImportModule ''dotenv'',
    ImportModule ''roboflow'',
    LoadDotenv]"
  by code_simp

lemma notebook_stops_in_cell_12:
  assumes "raised (cells_before_12 X w) = None"
    and "raised (cell_12 X (world_of (cells_before_12 X w))) \<noteq> None"
  shows "notebook X w = cell_12 X (world_of (cells_before_12 X w))"
proof -
  from assms(1) obtain u w0 where r: "cells_before_12 X w = Returns u w0"
    by (cases "cells_before_12 X w") simp_all
  with assms(2) show ?thesis
    by (simp add: notebook_split and_then_raises)
qed


section \<open>Example runs; creating a directory that exists\<close>

lemma out_of_memory_elsewhere:
  "raised (run_cell out_of_memory ''/work/yolov8/datasets/TA-5'' (''n'', 50, 2, ''Adam'')
      (ready_world\<lparr>dataset := ''/downloads/TA-5''\<rparr>))
     = Some (OtherError ''CUDA out of memory'')"
  by code_simp

lemma out_of_memory_elsewhere_trace:
  "trace (world_of (run_cell out_of_memory ''/work/yolov8/datasets/TA-5'' (''n'', 50, 2, ''Adam'')
      (ready_world\<lparr>dataset := ''/downloads/TA-5''\<rparr>))) =
   [Chdir (Path ''/'' [''work'', ''yolov8'', ''datasets'']),
    Mkdir (Path ''/'' [''work'', ''yolov8'', ''experiments'', ''yolov8n'',
      ''epoch_50_batch_2_optimizer_Adam'']),
    WandbInit (init_args (Path ''/'' [''work'', ''yolov8'']) ''n'' 50 2 ''Adam''),
    YoloLoad ''yolov8n.pt'',
    CudaIsAvailable,
    Train ''yolov8n.pt''
      (train_kwargs (Path ''/'' [''work'', ''yolov8'']) ''n'' 50 2 ''Adam''
         ''/work/yolov8/datasets/TA-5'' ''cpu'')]"
  by code_simp

lemma out_of_memory_elsewhere_grid:
  "cell_20 out_of_memory (ready_world\<lparr>dataset := ''/downloads/TA-5''\<rparr>) =
     run_cell out_of_memory ''/work/yolov8/datasets/TA-5'' (''n'', 50, 2, ''Adam'')
       (ready_world\<lparr>dataset := ''/downloads/TA-5''\<rparr>)"
proof -
  have "for_each ((''n'', 50, 2, ''Adam'') # tl grid)
          (run_cell out_of_memory ''/work/yolov8/datasets/TA-5'')
          (ready_world\<lparr>dataset := ''/downloads/TA-5''\<rparr>) =
        run_cell out_of_memory ''/work/yolov8/datasets/TA-5'' (''n'', 50, 2, ''Adam'')
          (ready_world\<lparr>dataset := ''/downloads/TA-5''\<rparr>)"
    by (rule for_each_first_raises) (simp add: out_of_memory_elsewhere)
  moreover have "str_path (joinpath (DATASETS_PATH (ready_world\<lparr>dataset := ''/downloads/TA-5''\<rparr>)) ''TA-5'')
      = ''/work/yolov8/datasets/TA-5''"
    using ready_location by simp
  ultimately show ?thesis
    unfolding cell_20_flat using grid_first by simp
qed

lemma run_events_list:
  "run_events X h home dp v e b opt loc =
     [Chdir dp, Mkdir (experiment_path home v e b opt),
      WandbInit (init_args home v e b opt), YoloLoad (model_name v), CudaIsAvailable,
      Train (model_name v) (train_kwargs home v e b opt loc
        (select_device (cuda_available X (h @ [Chdir dp, Mkdir (experiment_path home v e b opt),
           WandbInit (init_args home v e b opt), YoloLoad (model_name v)])))),
      WandbFinish]"
  by (simp add: run_events_def Let_def)

lemma quiet_run_returns:
  "raised (train_yolo_with_wandb quiet ''n'' 50 2 ''Adam'' ''/work/yolov8/datasets/TA-5'' ready_world)
     = None"
  by code_simp

lemma mkdir_stmt_existing:
  "is_dir (fs w) p \<Longrightarrow> mkdir_stmt p w = Returns () (logged (Mkdir p) w)"
  by (simp add: mkdir_stmt_def Path_mkdir_def mkdir_existing is_dir_def logged_def)

lemma mkdir_stmt_made:
  "mkdir_stmt p w = Returns u w' \<Longrightarrow> is_dir (fs w') p"
  by (auto simp: mkdir_stmt_def Path_mkdir_def is_dir_def dest: mkdir_parents_made
      split: prod.splits option.splits)

lemma run_mkdir_path:
  assumes "Mkdir q \<in> set (events_since w (train_yolo_with_wandb X v e b opt loc w))"
  shows "q = experiment_path (HOME w) v e b opt"
proof -
  from train_run(2)[where X=X and version=v and epoch=e and batch_size=b and optimizer=opt
      and dataset_location=loc and w=w]
  have "set (events_since w (train_yolo_with_wandb X v e b opt loc w)) \<subseteq>
      set (run_events X (trace w) (HOME w) (DATASETS_PATH w) v e b opt loc)"
    by (rule set_mono_prefix)
  with assms have "Mkdir q \<in> set (run_events X (trace w) (HOME w) (DATASETS_PATH w) v e b opt loc)"
    by blast
  then show ?thesis
    by (simp add: run_events_def Let_def)
qed

lemma ready_mkdir_returns:
  "raised (mkdir_stmt (experiment_path (HOME ready_world) ''n'' 50 2 ''Adam'') ready_world) = None"
  by code_simp

lemma length_concat_map_const:
  "(\<And>x. x \<in> set xs \<Longrightarrow> length (f x) = n) \<Longrightarrow> length (concat (map f xs)) = length xs * n"
  by (induction xs) simp_all

lemma nth_concat_map_const:
  "(\<And>x. x \<in> set xs \<Longrightarrow> length (f x) = n) \<Longrightarrow> i < length xs \<Longrightarrow> j < n \<Longrightarrow>
     concat (map f xs) ! (i * n + j) = f (xs ! i) ! j"
proof (induction xs arbitrary: i)
  case Nil
  then show ?case by simp
next
  case (Cons x xs)
  show ?case
  proof (cases i)
    case 0
    with Cons.prems show ?thesis by (simp add: nth_append)
  next
    case (Suc k)
    with Cons.prems have "concat (map f xs) ! (k * n + j) = f (xs ! k) ! j"
      by (intro Cons.IH) simp_all
    with Suc Cons.prems show ?thesis
      by (simp add: nth_append add.assoc)
  qed
qed

lemma grid_nth:
  assumes "i < 5" "j < 4" "k < 4" "l < 2"
  shows "grid ! (32 * i + 8 * j + 2 * k + l) =
    (versions ! i, epochs ! j, batch_sizes ! k, optimizers ! l)"
proof -
  let ?fb = "\<lambda>v e b. map (\<lambda>opt. (v, e, b, opt)) optimizers"
  let ?fe = "\<lambda>v e. concat (map (?fb v e) batch_sizes)"
  let ?fv = "\<lambda>v. concat (map (?fe v) epochs)"
  have lb: "length (?fb v e b) = 2" for v e b
    by (simp add: optimizers_def)
  have "length (?fe v e) = length batch_sizes * 2" for v e
    by (rule length_concat_map_const) (rule lb)
  then have le: "length (?fe v e) = 8" for v e
    by (simp add: batch_sizes_def)
  have "length (?fv v) = length epochs * 8" for v
    by (rule length_concat_map_const) (rule le)
  then have lv: "length (?fv v) = 32" for v
    by (simp add: epochs_def)
  have g: "grid = concat (map ?fv versions)"
    by (simp add: grid_def)
  have idx: "32 * i + 8 * j + 2 * k + l = i * 32 + (j * 8 + (k * 2 + l))"
    by simp
  have b1: "j * 8 + (k * 2 + l) < 32" and b2: "k * 2 + l < 8"
    using assms by simp_all
  have "grid ! (32 * i + 8 * j + 2 * k + l) =
      concat (map ?fv versions) ! (i * 32 + (j * 8 + (k * 2 + l)))"
    unfolding g idx ..
  also have "\<dots> = ?fv (versions ! i) ! (j * 8 + (k * 2 + l))"
    using assms b1 by (intro nth_concat_map_const lv) (simp_all add: versions_def)
  also have "\<dots> = ?fe (versions ! i) (epochs ! j) ! (k * 2 + l)"
    using assms b2 by (intro nth_concat_map_const le) (simp_all add: epochs_def)
  also have "\<dots> = ?fb (versions ! i) (epochs ! j) (batch_sizes ! k) ! l"
    using assms by (intro nth_concat_map_const lb) (simp_all add: batch_sizes_def)
  also have "\<dots> = (versions ! i, epochs ! j, batch_sizes ! k, optimizers ! l)"
  proof -
    from assms have "l < length optimizers" by (simp add: optimizers_def)
    then show ?thesis by (rule nth_map)
  qed
  finally show ?thesis .
qed

section \<open>A training call that raises\<close>

lemma train_run_stops_at_training:
  fixes X w version epoch batch_size optimizer dataset_location
  defines "r \<equiv> train_yolo_with_wandb X version epoch batch_size optimizer dataset_location w"
  assumes "last (events_since w r) = Train m a"
  shows "raised r = outcome_of X (trace w @ butlast (events_since w r)) (Train m a)"
  using assms(2)
  unfolding r_def train_yolo_with_wandb_def os_chdir_def mkdir_stmt_def call_def events_since_def
  by (auto simp: Let_def split: option.splits node.splits prod.splits)

lemma train_run_earlier_trainings:
  fixes X w version epoch batch_size optimizer dataset_location
  defines "r \<equiv> train_yolo_with_wandb X version epoch batch_size optimizer dataset_location w"
  shows "each_train (\<lambda>h m a. outcome_of X h (Train m a) = None) (trace w)
           (butlast (events_since w r))"
    and "events_since w r \<noteq> []"
    and "raised r = None \<Longrightarrow> last (events_since w r) = WandbFinish"
  unfolding r_def train_yolo_with_wandb_def os_chdir_def mkdir_stmt_def call_def events_since_def
  by (auto simp: Let_def split: option.splits node.splits prod.splits)

lemma failure_is_last:
  assumes g1: "each_train (\<lambda>h m a. outcome_of X h (Train m a) = None) h (butlast es)"
    and g2: "\<And>m a. es \<noteq> [] \<Longrightarrow> last es = Train m a \<Longrightarrow>
               raised r = outcome_of X (h @ butlast es) (Train m a)"
    and es: "es = pre @ Train m a # post"
    and err: "outcome_of X (h @ pre) (Train m a) = Some err"
  shows "post = [] \<and> raised r = Some err"
proof -
  have p: "post = []"
  proof (rule ccontr)
    assume "post \<noteq> []"
    then have "butlast es = pre @ Train m a # butlast post"
      by (simp add: es butlast_append)
    from each_train_split[OF g1 this] err show False by simp
  qed
  with es have "es \<noteq> []" "last es = Train m a" "butlast es = pre"
    by (simp_all add: butlast_append)
  with g2[of m a] err p show ?thesis by simp
qed

lemma grid_loop_failure:
  "trace (world_of (for_each cells (run_cell X loc) w)) =
      trace w @ events_since w (for_each cells (run_cell X loc) w) \<and>
   each_train (\<lambda>h m a. outcome_of X h (Train m a) = None) (trace w)
      (butlast (events_since w (for_each cells (run_cell X loc) w))) \<and>
   (\<forall>m a. events_since w (for_each cells (run_cell X loc) w) \<noteq> [] \<and>
      last (events_since w (for_each cells (run_cell X loc) w)) = Train m a \<longrightarrow>
      raised (for_each cells (run_cell X loc) w) =
        outcome_of X (trace w @ butlast (events_since w (for_each cells (run_cell X loc) w)))
          (Train m a))"
proof (induction cells arbitrary: w)
  case Nil
  show ?case by (simp add: events_since_def)
next
  case (Cons c cs)
  obtain v e b opt where c: "c = (v, e, b, opt)"
    by (cases c) auto
  define r1 where "r1 = train_yolo_with_wandb X v e b opt loc w"
  define es1 where "es1 = events_since w r1"
  note tr = train_run[where X=X and version=v and epoch=e and batch_size=b and optimizer=opt
      and dataset_location=loc and w=w]
  note early = train_run_earlier_trainings[where X=X and version=v and epoch=e
      and batch_size=b and optimizer=opt and dataset_location=loc and w=w]
  have tr1: "trace (world_of r1) = trace w @ es1"
    unfolding r1_def es1_def by (rule tr(1))
  have b1: "each_train (\<lambda>h m a. outcome_of X h (Train m a) = None) (trace w) (butlast es1)"
    unfolding r1_def es1_def by (rule early(1))
  have ne1: "es1 \<noteq> []"
    unfolding r1_def es1_def by (rule early(2))
  have l1: "raised r1 = outcome_of X (trace w @ butlast es1) (Train m a)"
    if "last es1 = Train m a" for m a
    using that unfolding r1_def es1_def by (rule train_run_stops_at_training)
  show ?case
  proof (cases r1)
    case (Raises err w1)
    then have whole: "for_each (c # cs) (run_cell X loc) w = r1"
      by (simp add: c run_cell_pair r1_def[symmetric])
    show ?thesis
      unfolding whole es1_def[symmetric] using tr1 b1 l1 by blast
  next
    case (Returns u w1)
    then have whole: "for_each (c # cs) (run_cell X loc) w = for_each cs (run_cell X loc) w1"
      by (simp add: c run_cell_pair r1_def[symmetric])
    let ?r2 = "for_each cs (run_cell X loc) w1"
    define es2 where "es2 = events_since w1 ?r2"
    from Returns have "raised r1 = None" by simp
    then have fin: "last es1 = WandbFinish"
      unfolding r1_def es1_def by (rule early(3))
    from Returns tr1 have w1: "trace w1 = trace w @ es1" by simp
    from Cons.IH[of w1] have tr2: "trace (world_of ?r2) = trace w1 @ es2"
      and b2: "each_train (\<lambda>h m a. outcome_of X h (Train m a) = None) (trace w1) (butlast es2)"
      and l2: "\<forall>m a. es2 \<noteq> [] \<and> last es2 = Train m a \<longrightarrow>
          raised ?r2 = outcome_of X (trace w1 @ butlast es2) (Train m a)"
      unfolding es2_def by blast+
    have all1: "each_train (\<lambda>h m a. outcome_of X h (Train m a) = None) (trace w) es1"
    proof -
      have "es1 = butlast es1 @ [WandbFinish]"
        using ne1 fin by (metis append_butlast_last_id)
      then have "each_train (\<lambda>h m a. outcome_of X h (Train m a) = None) (trace w) es1 =
          each_train (\<lambda>h m a. outcome_of X h (Train m a) = None) (trace w)
            (butlast es1 @ [WandbFinish])"
        by simp
      with b1 show ?thesis
        by (simp add: each_train_append)
    qed
    have ev: "events_since w ?r2 = es1 @ es2"
      using tr2 w1 by (simp add: events_since_def)
    have t: "trace (world_of ?r2) = trace w @ es1 @ es2"
      using tr2 w1 by simp
    show ?thesis
    proof (cases "es2 = []")
      case True
      have "each_train (\<lambda>h m a. outcome_of X h (Train m a) = None) (trace w) (butlast es1)"
        by (rule b1)
      moreover have "last es1 \<noteq> Train m a" for m a
        using fin by simp
      ultimately show ?thesis
        unfolding whole ev using t True by simp
    next
      case False
      then have bl: "butlast (es1 @ es2) = es1 @ butlast es2" and la: "last (es1 @ es2) = last es2"
        by (simp_all add: butlast_append)
      have "each_train (\<lambda>h m a. outcome_of X h (Train m a) = None) (trace w) (es1 @ butlast es2)"
        using all1 b2 w1 by (simp add: each_train_append)
      moreover have "raised ?r2 = outcome_of X (trace w @ es1 @ butlast es2) (Train m a)"
        if "last es2 = Train m a" for m a
        using l2 that False w1 by simp
      ultimately show ?thesis
        unfolding whole ev bl la using t by simp
    qed
  qed
qed

lemma cell_20_failure:
  assumes "trace (world_of (cell_20 X w)) = trace w @ pre @ Train m a # post"
    and "outcome_of X (trace w @ pre) (Train m a) = Some err"
  shows "post = [] \<and> raised (cell_20 X w) = Some err"
proof -
  let ?loc = "str_path (joinpath (DATASETS_PATH w) ''TA-5'')"
  let ?r = "for_each grid (run_cell X ?loc) w"
  note g = grid_loop_failure[of grid X ?loc w]
  from g assms(1) have es: "events_since w ?r = pre @ Train m a # post"
    by (simp add: cell_20_flat)
  from g have g1: "each_train (\<lambda>h m a. outcome_of X h (Train m a) = None) (trace w)
      (butlast (events_since w ?r))"
    by blast
  from g have g2: "raised ?r = outcome_of X (trace w @ butlast (events_since w ?r)) (Train m a)"
    if "events_since w ?r \<noteq> []" "last (events_since w ?r) = Train m a" for m a
    using that by blast
  from failure_is_last[OF g1 g2 es assms(2)] show ?thesis
    by (simp add: cell_20_flat)
qed

lemma run_failure:
  assumes "trace (world_of (train_yolo_with_wandb X v e b opt loc w)) = trace w @ pre @ Train m a # post"
    and "outcome_of X (trace w @ pre) (Train m a) = Some err"
  shows "post = [] \<and> raised (train_yolo_with_wandb X v e b opt loc w) = Some err"
proof -
  let ?r = "train_yolo_with_wandb X v e b opt loc w"
  from assms(1) have es: "events_since w ?r = pre @ Train m a # post"
    by (simp add: events_since_def)
  note early = train_run_earlier_trainings[where X=X and version=v and epoch=e
      and batch_size=b and optimizer=opt and dataset_location=loc and w=w]
  have g2: "raised ?r = outcome_of X (trace w @ butlast (events_since w ?r)) (Train m a)"
    if "events_since w ?r \<noteq> []" "last (events_since w ?r) = Train m a" for m a
    using that(2) by (rule train_run_stops_at_training)
  from failure_is_last[OF early(1) g2 es assms(2)] show ?thesis .
qed

lemma cell_20_prefix:
  "prefix (map call_config (train_calls (events_since w (cell_20 X w)))) (map cell_config grid)"
proof -
  let ?loc = "str_path (joinpath (DATASETS_PATH w) ''TA-5'')"
  have "each_train (\<lambda>h m a. True) h es" for h es
    by (induction "\<lambda>(h::event list) (m::string) (a::train_args). True" h es rule: each_train.induct) simp_all
  from grid_loop[where P="\<lambda>h m a. True" and X=X and home="HOME w" and dp="DATASETS_PATH w"
      and loc="?loc" and w=w and cells=grid, OF this refl refl]
  obtain es where es: "trace (world_of (for_each grid (run_cell X ?loc) w)) = trace w @ es"
    and pre: "prefix (map call_config (train_calls es)) (map cell_config grid)"
    by auto
  from es have "events_since w (cell_20 X w) = es"
    by (simp add: cell_20_flat events_since_def)
  with pre show ?thesis by simp
qed

lemma sgd_first_run:
  "raised (run_cell sgd_out_of_memory ''/work/yolov8/datasets/TA-5'' (''n'', 50, 2, ''Adam'')
     ready_world) = None"
  by code_simp

lemma sgd_second_run:
  "raised (run_cell sgd_out_of_memory ''/work/yolov8/datasets/TA-5'' (''n'', 50, 2, ''SGD'')
     (world_of (run_cell sgd_out_of_memory ''/work/yolov8/datasets/TA-5'' (''n'', 50, 2, ''Adam'')
        ready_world))) = Some (OtherError ''CUDA out of memory'')"
  by code_simp

lemma sgd_trace:
  "trace (world_of (run_cell sgd_out_of_memory ''/work/yolov8/datasets/TA-5'' (''n'', 50, 2, ''SGD'')
     (world_of (run_cell sgd_out_of_memory ''/work/yolov8/datasets/TA-5'' (''n'', 50, 2, ''Adam'')
        ready_world)))) =
   [Chdir (Path ''/'' [''work'', ''yolov8'', ''datasets'']),
    Mkdir (Path ''/'' [''work'', ''yolov8'', ''experiments'', ''yolov8n'',
      ''epoch_50_batch_2_optimizer_Adam'']),
    WandbInit (init_args (Path ''/'' [''work'', ''yolov8'']) ''n'' 50 2 ''Adam''),
    YoloLoad ''yolov8n.pt'',
    CudaIsAvailable,
    Train ''yolov8n.pt''
      (train_kwargs (Path ''/'' [''work'', ''yolov8'']) ''n'' 50 2 ''Adam''
         ''/work/yolov8/datasets/TA-5'' ''cpu''),
    WandbFinish,
    Chdir (Path ''/'' [''work'', ''yolov8'', ''datasets'']),
    Mkdir (Path ''/'' [''work'', ''yolov8'', ''experiments'', ''yolov8n'',
      ''epoch_50_batch_2_optimizer_SGD'']),
    WandbInit (init_args (Path ''/'' [''work'', ''yolov8'']) ''n'' 50 2 ''SGD''),
    YoloLoad ''yolov8n.pt'',
    CudaIsAvailable,
    Train ''yolov8n.pt''
      (train_kwargs (Path ''/'' [''work'', ''yolov8'']) ''n'' 50 2 ''SGD''
         ''/work/yolov8/datasets/TA-5'' ''cpu'')]"
  by code_simp

lemma grid_first_two:
  "grid = [(''n'', 50, 2, ''Adam'')] @ (''n'', 50, 2, ''SGD'') # drop 2 grid"
  by (simp add: grid_def versions_def epochs_def batch_sizes_def optimizers_def)

section \<open>The claims\<close>

text \<open>
  Claim C2. For every valid run configuration the experiment directory is
  \<^verbatim>\<open>experiments/yolov8<model_size>/epoch_<epoch_count>_batch_<batch_size>_optimizer_<optimizer_name>\<close>
  under the project directory \<^verbatim>\<open>HOME\<close>; it is a function of \<^verbatim>\<open>HOME\<close> and
  the four values alone, and two valid configurations have the same directory exactly when
  they are the same configuration.
\<close>

theorem experiment_path_unique:
  assumes "valid_config v e b opt" and "valid_config v' e' b' opt'"
  shows "experiment_path home v e b opt =
           joinpath home (''experiments/yolov8'' @ v @ ''/epoch_'' @ str_int e @ ''_batch_'' @
             str_int b @ ''_optimizer_'' @ opt) \<and>
         ((experiment_path home v e b opt = experiment_path home v' e' b' opt') =
            ((v, e, b, opt) = (v', e', b', opt')))"
proof
  from assms(1) have ns: "CHR ''/'' \<notin> set v" "CHR ''/'' \<notin> set opt"
    using valid_config_no_slash by blast+
  have "joinpath home (''experiments'' @ ''/'' @ (''yolov8'' @ v) @ ''/'' @ experiment_name e b opt)
      = Path (root home) (parts home @ [''experiments'', ''yolov8'' @ v, experiment_name e b opt])"
    using ns by (intro joinpath_three) (simp_all add: experiment_name_no_slash, simp_all add: experiment_name_def)
  then show "experiment_path home v e b opt =
           joinpath home (''experiments/yolov8'' @ v @ ''/epoch_'' @ str_int e @ ''_batch_'' @
             str_int b @ ''_optimizer_'' @ opt)"
    using ns by (simp add: experiment_path_parts) (simp add: experiment_name_def)
next
  from assms have ns: "CHR ''/'' \<notin> set v" "CHR ''/'' \<notin> set opt"
    "CHR ''/'' \<notin> set v'" "CHR ''/'' \<notin> set opt'"
    using valid_config_no_slash by blast+
  show "(experiment_path home v e b opt = experiment_path home v' e' b' opt') =
            ((v, e, b, opt) = (v', e', b', opt'))"
  proof
    assume "experiment_path home v e b opt = experiment_path home v' e' b' opt'"
    with ns have "v = v'" and "experiment_name e b opt = experiment_name e' b' opt'"
      by (simp_all add: experiment_path_parts)
    then show "(v, e, b, opt) = (v', e', b', opt')"
      using experiment_name_inj by blast
  next
    assume "(v, e, b, opt) = (v', e', b', opt')"
    then show "experiment_path home v e b opt = experiment_path home v' e' b' opt'"
      by simp
  qed
qed

theorem experiment_path_unique_witness:
  "valid_config ''n'' 50 2 ''Adam'' \<and> valid_config ''n'' 100 2 ''SGD'' \<and>
   experiment_path (Path ''/'' [''work'', ''yolov8'']) ''n'' 50 2 ''Adam'' =
     joinpath (Path ''/'' [''work'', ''yolov8''])
       ''experiments/yolov8n/epoch_50_batch_2_optimizer_Adam'' \<and>
   experiment_path (Path ''/'' [''work'', ''yolov8'']) ''n'' 50 2 ''Adam'' \<noteq>
     experiment_path (Path ''/'' [''work'', ''yolov8'']) ''n'' 100 2 ''SGD''"
proof -
  have v1: "valid_config ''n'' 50 2 ''Adam''" and v2: "valid_config ''n'' 100 2 ''SGD''"
    by (simp_all add: valid_config_def)
  note u = experiment_path_unique[OF v1 v2, of "Path ''/'' [''work'', ''yolov8'']"]
  from u[THEN conjunct1] have a: "experiment_path (Path ''/'' [''work'', ''yolov8'']) ''n'' 50 2 ''Adam'' =
     joinpath (Path ''/'' [''work'', ''yolov8''])
       ''experiments/yolov8n/epoch_50_batch_2_optimizer_Adam''"
    by (simp add: str_int_50 str_int_2)
  from u[THEN conjunct2] have b: "experiment_path (Path ''/'' [''work'', ''yolov8'']) ''n'' 50 2 ''Adam'' \<noteq>
     experiment_path (Path ''/'' [''work'', ''yolov8'']) ''n'' 100 2 ''SGD''"
    by simp
  from v1 v2 a b show ?thesis by blast
qed

text \<open>
  Claim C3. For model size \<^verbatim>\<open>n\<close>, 50 epochs, batch size 2 and optimizer
  \<^verbatim>\<open>Adam\<close> the experiment directory is
  \<^verbatim>\<open>experiments/yolov8n/epoch_50_batch_2_optimizer_Adam\<close> under \<^verbatim>\<open>HOME\<close>, it
  is the directory given to the tracking session, and the session's run name is
  \<^verbatim>\<open>yolov8n-epoch_50_batch_2_optimizer_Adam\<close>.
\<close>

theorem example_configuration:
  "experiment_path home ''n'' 50 2 ''Adam'' =
     joinpath home ''experiments/yolov8n/epoch_50_batch_2_optimizer_Adam'' \<and>
   parts (experiment_path home ''n'' 50 2 ''Adam'') =
     parts home @ [''experiments'', ''yolov8n'', ''epoch_50_batch_2_optimizer_Adam''] \<and>
   init_dir (init_args home ''n'' 50 2 ''Adam'') =
     str_path (joinpath home ''experiments/yolov8n/epoch_50_batch_2_optimizer_Adam'') \<and>
   init_name (init_args home ''n'' 50 2 ''Adam'') = ''yolov8n-epoch_50_batch_2_optimizer_Adam'' \<and>
   str_path (experiment_path (Path ''/'' [''work'', ''yolov8'']) ''n'' 50 2 ''Adam'') =
     ''/work/yolov8/experiments/yolov8n/epoch_50_batch_2_optimizer_Adam''"
proof -
  have n: "experiment_name 50 2 ''Adam'' = ''epoch_50_batch_2_optimizer_Adam''"
    by (simp add: experiment_name_def str_int_50 str_int_2)
  have p: "experiment_path home ''n'' 50 2 ''Adam'' =
     Path (root home) (parts home @ [''experiments'', ''yolov8n'', ''epoch_50_batch_2_optimizer_Adam''])"
    for home
    by (simp add: experiment_path_parts n)
  have j: "joinpath home ''experiments/yolov8n/epoch_50_batch_2_optimizer_Adam'' =
     Path (root home) (parts home @ [''experiments'', ''yolov8n'', ''epoch_50_batch_2_optimizer_Adam''])"
    for home
    by (simp add: joinpath_def parse_path_def splitroot_def)
  show ?thesis
    by (simp add: p j init_args_def run_name_def n str_path_def)
qed

text \<open>
  Claim C1. The grid has 160 distinct combinations, in the order of the nested loops: the
  combination at position \<open>32 i + 8 j + 2 k + l\<close> has the \<open>i\<close>-th model size, the
  \<open>j\<close>-th epoch count, the \<open>k\<close>-th batch size and the \<open>l\<close>-th optimizer. The calls
  of the training procedure made by the grid search are, in order, the calls for an initial
  segment of the grid, one call per combination; when the grid search returns, they are the
  calls for the whole grid. It returns when no library call raises or touches the file
  system, no file is in the way and the datasets directory exists.
\<close>

theorem grid_search_runs_every_combination:
  "length grid = 160 \<and> distinct grid \<and> distinct (map cell_config grid) \<and>
   (\<forall>i j k l. i < 5 \<and> j < 4 \<and> k < 4 \<and> l < 2 \<longrightarrow>
      grid ! (32 * i + 8 * j + 2 * k + l) =
        (versions ! i, epochs ! j, batch_sizes ! k, optimizers ! l)) \<and>
   prefix (map call_config (train_calls (events_since w (cell_20 X w)))) (map cell_config grid) \<and>
   (raised (cell_20 X w) = None \<longrightarrow>
      map call_config (train_calls (events_since w (cell_20 X w))) = map cell_config grid) \<and>
   ((\<forall>h ev. outcome_of X h ev = None) \<and> (\<forall>h ev f. fs_effect X h ev f = f) \<and>
    (\<forall>q. fs w q \<noteq> Some File) \<and> is_dir (fs w) (DATASETS_PATH w) \<longrightarrow>
      raised (cell_20 X w) = None)"
proof -
  let ?loc = "str_path (joinpath (DATASETS_PATH w) ''TA-5'')"
  have order: "\<forall>i j k l. i < 5 \<and> j < 4 \<and> k < 4 \<and> l < 2 \<longrightarrow>
      grid ! (32 * i + 8 * j + 2 * k + l) =
        (versions ! i, epochs ! j, batch_sizes ! k, optimizers ! l)"
    using grid_nth by blast
  have inj: "inj_on cell_config (set grid)"
    by (rule inj_onI) (auto simp: cell_config_def model_name_def)
  have dist: "distinct (map cell_config grid)"
    using grid_distinct inj by (simp add: distinct_map)
  have total: "raised (cell_20 X w) = None"
    if "\<forall>h ev. outcome_of X h ev = None" "\<forall>h ev f. fs_effect X h ev f = f"
       "\<forall>q. fs w q \<noteq> Some File" "is_dir (fs w) (DATASETS_PATH w)"
    using that by (simp add: cell_20_flat grid_returns is_dir_def)
  have "each_train (\<lambda>h m a. True) h es" for h es
    by (induction "\<lambda>(h::event list) (m::string) (a::train_args). True" h es rule: each_train.induct) simp_all
  from grid_loop[where P="\<lambda>h m a. True" and X=X and home="HOME w" and dp="DATASETS_PATH w"
      and loc="?loc" and w=w and cells=grid, OF this refl refl]
  obtain es where es: "trace (world_of (for_each grid (run_cell X ?loc) w)) = trace w @ es"
    and pre: "prefix (map call_config (train_calls es)) (map cell_config grid)"
    and ret: "raised (for_each grid (run_cell X ?loc) w) = None \<longrightarrow>
         map call_config (train_calls es) = map cell_config grid"
    by auto
  from es have "events_since w (cell_20 X w) = es"
    by (simp add: cell_20_flat events_since_def)
  with pre ret have "prefix (map call_config (train_calls (events_since w (cell_20 X w))))
      (map cell_config grid)"
    and "raised (cell_20 X w) = None \<longrightarrow>
      map call_config (train_calls (events_since w (cell_20 X w))) = map cell_config grid"
    by (simp_all add: cell_20_flat)
  with grid_length grid_distinct dist order total show ?thesis
    by blast
qed

theorem grid_search_runs_every_combination_witness:
  "raised (cell_20 quiet ready_world) = None \<and>
   map call_config (train_calls (events_since ready_world (cell_20 quiet ready_world))) =
     map cell_config grid \<and>
   length (train_calls (events_since ready_world (cell_20 quiet ready_world))) = 160 \<and>
   grid ! (32 * 1 + 8 * 2 + 2 * 3 + 1) = (''s'', 150, 16, ''SGD'')"
proof -
  note t = grid_search_runs_every_combination[of ready_world quiet]
  have q: "\<forall>h ev. outcome_of quiet h ev = None" "\<forall>h ev f. fs_effect quiet h ev f = f"
    by (simp_all add: quiet_def)
  have f: "\<forall>q. fs ready_world q \<noteq> Some File" "is_dir (fs ready_world) (DATASETS_PATH ready_world)"
    by (simp_all add: ready_world_def fresh_world_def is_dir_def lookup_def)
  from t q f have r: "raised (cell_20 quiet ready_world) = None"
    by blast
  with t have m: "map call_config (train_calls (events_since ready_world (cell_20 quiet ready_world))) =
     map cell_config grid"
    by blast
  from arg_cong[OF m, of length] t
  have n: "length (train_calls (events_since ready_world (cell_20 quiet ready_world))) = 160"
    by simp
  have "(1::nat) < 5 \<and> (2::nat) < 4 \<and> (3::nat) < 4 \<and> (1::nat) < 2"
    by simp
  with t have "grid ! (32 * 1 + 8 * 2 + 2 * 3 + 1) =
      (versions ! 1, epochs ! 2, batch_sizes ! 3, optimizers ! 1)"
    by blast
  then have g: "grid ! (32 * 1 + 8 * 2 + 2 * 3 + 1) = (''s'', 150, 16, ''SGD'')"
    by (simp add: versions_def epochs_def batch_sizes_def optimizers_def)
  from r m n g show ?thesis by blast
qed

text \<open>
  Claim C5. A failure is not handled anywhere. When the runs for the combinations before
  \<open>c\<close> have returned and the run for \<open>c\<close> raises, the grid search raises the same
  exception in the world the failing run left. When a training call raises, it is the last
  call of its run, which raises that exception (the tracking session is not closed); and it
  is the last call of the whole grid search, which raises that exception: nothing is retried,
  skipped or run afterwards, and the training calls made are those for an initial segment
  of the grid.
\<close>

theorem failed_run_aborts_grid:
  "(grid = before @ c # rest \<and>
    for_each before (run_cell X (str_path (joinpath (DATASETS_PATH w) ''TA-5''))) w = Returns () w1 \<and>
    run_cell X (str_path (joinpath (DATASETS_PATH w) ''TA-5'')) c w1 = Raises err w2 \<longrightarrow>
      cell_20 X w = Raises err w2) \<and>
   (trace (world_of (train_yolo_with_wandb X v e b opt loc wr)) = trace wr @ pre1 @ Train m1 a1 # post1 \<and>
    outcome_of X (trace wr @ pre1) (Train m1 a1) = Some err1 \<longrightarrow>
      post1 = [] \<and> raised (train_yolo_with_wandb X v e b opt loc wr) = Some err1) \<and>
   (trace (world_of (cell_20 X w)) = trace w @ pre2 @ Train m2 a2 # post2 \<and>
    outcome_of X (trace w @ pre2) (Train m2 a2) = Some err2 \<longrightarrow>
      post2 = [] \<and> raised (cell_20 X w) = Some err2 \<and>
      prefix (map call_config (train_calls (pre2 @ [Train m2 a2]))) (map cell_config grid))"
proof (intro conjI impI)
  assume a: "grid = before @ c # rest \<and>
    for_each before (run_cell X (str_path (joinpath (DATASETS_PATH w) ''TA-5''))) w = Returns () w1 \<and>
    run_cell X (str_path (joinpath (DATASETS_PATH w) ''TA-5'')) c w1 = Raises err w2"
  then have g: "grid = before @ c # rest" by simp
  from a show "cell_20 X w = Raises err w2"
    unfolding cell_20_flat g for_each_append by simp
next
  assume a: "trace (world_of (train_yolo_with_wandb X v e b opt loc wr)) = trace wr @ pre1 @ Train m1 a1 # post1 \<and>
    outcome_of X (trace wr @ pre1) (Train m1 a1) = Some err1"
  from run_failure[OF a[THEN conjunct1] a[THEN conjunct2]]
  show "post1 = []" and "raised (train_yolo_with_wandb X v e b opt loc wr) = Some err1"
    by (rule conjunct1, rule conjunct2)
next
  assume a: "trace (world_of (cell_20 X w)) = trace w @ pre2 @ Train m2 a2 # post2 \<and>
    outcome_of X (trace w @ pre2) (Train m2 a2) = Some err2"
  note f = cell_20_failure[OF a[THEN conjunct1] a[THEN conjunct2]]
  from f show p: "post2 = []" by (rule conjunct1)
  from f show "raised (cell_20 X w) = Some err2" by (rule conjunct2)
  from a p have "events_since w (cell_20 X w) = pre2 @ [Train m2 a2]"
    by (simp add: events_since_def)
  with cell_20_prefix[of w X]
  show "prefix (map call_config (train_calls (pre2 @ [Train m2 a2]))) (map cell_config grid)"
    by simp
qed

theorem failed_run_aborts_grid_witness:
  "grid = [(''n'', 50, 2, ''Adam'')] @ (''n'', 50, 2, ''SGD'') # drop 2 grid \<and>
   raised (run_cell sgd_out_of_memory ''/work/yolov8/datasets/TA-5'' (''n'', 50, 2, ''Adam'')
     ready_world) = None \<and>
   raised (cell_20 sgd_out_of_memory ready_world) = Some (OtherError ''CUDA out of memory'') \<and>
   trace (world_of (cell_20 sgd_out_of_memory ready_world)) =
     trace ready_world @
     [Chdir (Path ''/'' [''work'', ''yolov8'', ''datasets'']),
      Mkdir (Path ''/'' [''work'', ''yolov8'', ''experiments'', ''yolov8n'',
        ''epoch_50_batch_2_optimizer_Adam'']),
      WandbInit (init_args (Path ''/'' [''work'', ''yolov8'']) ''n'' 50 2 ''Adam''),
      YoloLoad ''yolov8n.pt'',
      CudaIsAvailable,
      Train ''yolov8n.pt''
        (train_kwargs (Path ''/'' [''work'', ''yolov8'']) ''n'' 50 2 ''Adam''
           ''/work/yolov8/datasets/TA-5'' ''cpu''),
      WandbFinish,
      Chdir (Path ''/'' [''work'', ''yolov8'', ''datasets'']),
      Mkdir (Path ''/'' [''work'', ''yolov8'', ''experiments'', ''yolov8n'',
        ''epoch_50_batch_2_optimizer_SGD'']),
      WandbInit (init_args (Path ''/'' [''work'', ''yolov8'']) ''n'' 50 2 ''SGD''),
      YoloLoad ''yolov8n.pt'',
      CudaIsAvailable] @
     Train ''yolov8n.pt''
       (train_kwargs (Path ''/'' [''work'', ''yolov8'']) ''n'' 50 2 ''SGD''
          ''/work/yolov8/datasets/TA-5'' ''cpu'') # [] \<and>
   outcome_of sgd_out_of_memory
     (trace ready_world @
      [Chdir (Path ''/'' [''work'', ''yolov8'', ''datasets'']),
       Mkdir (Path ''/'' [''work'', ''yolov8'', ''experiments'', ''yolov8n'',
         ''epoch_50_batch_2_optimizer_Adam'']),
       WandbInit (init_args (Path ''/'' [''work'', ''yolov8'']) ''n'' 50 2 ''Adam''),
       YoloLoad ''yolov8n.pt'',
       CudaIsAvailable,
       Train ''yolov8n.pt''
         (train_kwargs (Path ''/'' [''work'', ''yolov8'']) ''n'' 50 2 ''Adam''
            ''/work/yolov8/datasets/TA-5'' ''cpu''),
       WandbFinish,
       Chdir (Path ''/'' [''work'', ''yolov8'', ''datasets'']),
       Mkdir (Path ''/'' [''work'', ''yolov8'', ''experiments'', ''yolov8n'',
         ''epoch_50_batch_2_optimizer_SGD'']),
       WandbInit (init_args (Path ''/'' [''work'', ''yolov8'']) ''n'' 50 2 ''SGD''),
       YoloLoad ''yolov8n.pt'',
       CudaIsAvailable])
     (Train ''yolov8n.pt''
       (train_kwargs (Path ''/'' [''work'', ''yolov8'']) ''n'' 50 2 ''SGD''
          ''/work/yolov8/datasets/TA-5'' ''cpu'')) = Some (OtherError ''CUDA out of memory'')"
proof -
  let ?X = sgd_out_of_memory
  let ?loc = "''/work/yolov8/datasets/TA-5''"
  let ?r1 = "run_cell ?X ?loc (''n'', 50, 2, ''Adam'') ready_world"
  let ?r2 = "run_cell ?X ?loc (''n'', 50, 2, ''SGD'') (world_of ?r1)"
  let ?pre = "[Chdir (Path ''/'' [''work'', ''yolov8'', ''datasets'']),
      Mkdir (Path ''/'' [''work'', ''yolov8'', ''experiments'', ''yolov8n'',
        ''epoch_50_batch_2_optimizer_Adam'']),
      WandbInit (init_args (Path ''/'' [''work'', ''yolov8'']) ''n'' 50 2 ''Adam''),
      YoloLoad ''yolov8n.pt'',
      CudaIsAvailable,
      Train ''yolov8n.pt''
        (train_kwargs (Path ''/'' [''work'', ''yolov8'']) ''n'' 50 2 ''Adam''
           ''/work/yolov8/datasets/TA-5'' ''cpu''),
      WandbFinish,
      Chdir (Path ''/'' [''work'', ''yolov8'', ''datasets'']),
      Mkdir (Path ''/'' [''work'', ''yolov8'', ''experiments'', ''yolov8n'',
        ''epoch_50_batch_2_optimizer_SGD'']),
      WandbInit (init_args (Path ''/'' [''work'', ''yolov8'']) ''n'' 50 2 ''SGD''),
      YoloLoad ''yolov8n.pt'',
      CudaIsAvailable]"
  let ?a = "train_kwargs (Path ''/'' [''work'', ''yolov8'']) ''n'' 50 2 ''SGD''
          ''/work/yolov8/datasets/TA-5'' ''cpu''"
  from sgd_first_run obtain u w1 where r1: "?r1 = Returns u w1"
    by (cases ?r1) simp_all
  from sgd_second_run r1 obtain w2 where
    r2: "run_cell ?X ?loc (''n'', 50, 2, ''SGD'') w1 = Raises (OtherError ''CUDA out of memory'') w2"
    by (cases "run_cell ?X ?loc (''n'', 50, 2, ''SGD'') w1") simp_all
  have t0: "trace ready_world = []"
    by (simp add: ready_world_def fresh_world_def)
  from sgd_trace r1 r2 have tw2: "trace w2 = trace ready_world @ ?pre @ Train ''yolov8n.pt'' ?a # []"
    by (simp add: t0)
  have oc: "outcome_of ?X (trace ready_world @ ?pre) (Train ''yolov8n.pt'' ?a) =
      Some (OtherError ''CUDA out of memory'')"
    by (simp add: sgd_out_of_memory_def quiet_def train_kwargs_def)
  note t = failed_run_aborts_grid[where before="[(''n'', 50, 2, ''Adam'')]"
      and c="(''n'', 50, 2, ''SGD'')" and rest="drop 2 grid" and X="?X" and w=ready_world
      and ?w1.0=w1 and err="OtherError ''CUDA out of memory''" and ?w2.0=w2
      and ?pre2.0="?pre" and ?m2.0="''yolov8n.pt''" and ?a2.0="?a" and ?post2.0="[]"
      and ?err2.0="OtherError ''CUDA out of memory''"]
  have f: "for_each [(''n'', 50, 2, ''Adam'')]
      (run_cell ?X (str_path (joinpath (DATASETS_PATH ready_world) ''TA-5''))) ready_world =
      Returns () w1"
    using r1 by (simp add: ready_location)
  have s: "run_cell ?X (str_path (joinpath (DATASETS_PATH ready_world) ''TA-5''))
      (''n'', 50, 2, ''SGD'') w1 = Raises (OtherError ''CUDA out of memory'') w2"
    using r2 by (simp add: ready_location)
  from t[THEN conjunct1] grid_first_two f s
  have c: "cell_20 ?X ready_world = Raises (OtherError ''CUDA out of memory'') w2"
    by blast
  then have tr: "trace (world_of (cell_20 ?X ready_world)) =
      trace ready_world @ ?pre @ Train ''yolov8n.pt'' ?a # []"
    using tw2 by simp
  from t[THEN conjunct2, THEN conjunct2] tr oc
  have "raised (cell_20 ?X ready_world) = Some (OtherError ''CUDA out of memory'')"
    by blast
  with grid_first_two sgd_first_run tr oc show ?thesis
    by blast
qed

text \<open>
  Claim C4, as the notebook has it. When \<^verbatim>\<open>ROBOFLOW_API_KEY\<close> is neither in the
  environment nor in the \<^verbatim>\<open>.env\<close> file, the notebook raises; what it has done by then
  are calls of the cells up to the check only (no dataset download, no tracking session, no
  training call); and when the earlier cells and the first part of cell 12 have returned,
  the exception is the \<^verbatim>\<open>ValueError\<close> of the check, raised right after
  \<^verbatim>\<open>load_dotenv()\<close>.
\<close>

theorem missing_credential_stops_before_download:
  assumes "environ w ''ROBOFLOW_API_KEY'' = None" and "dotenv_file X ''ROBOFLOW_API_KEY'' = None"
  shows "raised (notebook X w) \<noteq> None \<and>
     list_all setup_event (events_since w (notebook X w)) \<and>
     train_calls (events_since w (notebook X w)) = [] \<and>
     (\<forall>u w0 u' w1. cells_before_12 X w = Returns u w0 \<and> cell_12_setup X w0 = Returns u' w1 \<longrightarrow>
        notebook X w = Raises (ValueError api_key_message) (w1\<lparr>api_key := None\<rparr>))"
proof -
  have f: "falsy (environ w ''ROBOFLOW_API_KEY'')"
    "environ w ''ROBOFLOW_API_KEY'' = None \<longrightarrow> falsy (dotenv_file X ''ROBOFLOW_API_KEY'')"
    using assms by (simp_all add: falsy_def)
  from log_grows_events[OF notebook_aborts(2)[OF f]]
  have l: "list_all setup_event (events_since w (notebook X w))" by simp
  have "notebook X w = Raises (ValueError api_key_message) (w1\<lparr>api_key := None\<rparr>)"
    if r: "cells_before_12 X w = Returns u w0" and s: "cell_12_setup X w0 = Returns u' w1"
    for u w0 u' w1
  proof -
    from notebook_aborts(4)[OF f r s] assms have "environ w1 ''ROBOFLOW_API_KEY'' = None"
      by (auto simp: keeps_key_def)
    with notebook_aborts(3)[OF f r s] show ?thesis by simp
  qed
  with notebook_aborts(1)[OF f] l setup_no_train[OF l] show ?thesis by blast
qed

theorem missing_credential_stops_before_download_witness:
  "environ fresh_world ''ROBOFLOW_API_KEY'' = None \<and>
   dotenv_file quiet ''ROBOFLOW_API_KEY'' = None \<and>
   raised (notebook quiet fresh_world) = Some (ValueError api_key_message) \<and>
   list_all setup_event (events_since fresh_world (notebook quiet fresh_world)) \<and>
   train_calls (events_since fresh_world (notebook quiet fresh_world)) = []"
proof -
  have e: "environ fresh_world ''ROBOFLOW_API_KEY'' = None"
    by (simp add: fresh_world_def)
  have d: "dotenv_file quiet ''ROBOFLOW_API_KEY'' = None"
    by (simp add: quiet_def)
  have "notebook quiet fresh_world = cell_12 quiet (world_of (cells_before_12 quiet fresh_world))"
    by (rule notebook_stops_in_cell_12) (simp_all add: fresh_before_12 fresh_cell_12)
  then have "raised (notebook quiet fresh_world) = Some (ValueError api_key_message)"
    by (simp add: fresh_cell_12)
  with missing_credential_stops_before_download[OF e d] e d show ?thesis by blast
qed

text \<open>
  Claim C4 as stated says that the check comes before any work. With libraries that never
  fail and no key anywhere, the notebook has by then run the GPU check, created the datasets
  directory, imported and checked the detection library, run the test inference and shown
  its image, and checked the packages of cell 12.
\<close>

theorem missing_credential_after_setup_work:
  "environ fresh_world ''ROBOFLOW_API_KEY'' = None \<and>
   dotenv_file quiet ''ROBOFLOW_API_KEY'' = None \<and>
   raised (notebook quiet fresh_world) = Some (ValueError api_key_message) \<and>
   events_since fresh_world (notebook quiet fresh_world) \<noteq> [] \<and>
   events_since fresh_world (notebook quiet fresh_world) =
   [Shell ''nvidia-smi'',
    Mkdir (Path ''/'' [''work'', ''yolov8'', ''datasets'']),
    ImportModule ''ultralytics'',
    ImportModule ''ultralytics'',
    UltralyticsChecks,
    ImportModule ''IPython.display'',
    MagicCd (Path ''/'' [''work'', ''yolov8'']),
    Shell ''yolo task=detect mode=predict model=yolov8n.pt conf=0.25 source=/work/img/test.jpg save=True'',
    DisplayImage ''runs/detect/predict/test.jpg'',
    ImportModule ''dotenv'',
    ImportModule ''roboflow'',
    ImportModule ''os'',
    ImportModule ''dotenv'',
    ImportModule ''roboflow'',
    LoadDotenv]"
proof -
  have n: "notebook quiet fresh_world = cell_12 quiet (world_of (cells_before_12 quiet fresh_world))"
    by (rule notebook_stops_in_cell_12) (simp_all add: fresh_before_12 fresh_cell_12)
  have e: "environ fresh_world ''ROBOFLOW_API_KEY'' = None"
    by (simp add: fresh_world_def)
  have d: "dotenv_file quiet ''ROBOFLOW_API_KEY'' = None"
    by (simp add: quiet_def)
  have r: "raised (notebook quiet fresh_world) = Some (ValueError api_key_message)"
    unfolding n by (rule fresh_cell_12)
  have t: "trace fresh_world = []"
    by (simp add: fresh_world_def)
  have ev: "events_since fresh_world (notebook quiet fresh_world) =
   [Shell ''nvidia-smi'',
    Mkdir (Path ''/'' [''work'', ''yolov8'', ''datasets'']),
    ImportModule ''ultralytics'',
    ImportModule ''ultralytics'',
    UltralyticsChecks,
    ImportModule ''IPython.display'',
    MagicCd (Path ''/'' [''work'', ''yolov8'']),
    Shell ''yolo task=detect mode=predict model=yolov8n.pt conf=0.25 source=/work/img/test.jpg save=True'',
    DisplayImage ''runs/detect/predict/test.jpg'',
    ImportModule ''dotenv'',
    ImportModule ''roboflow'',
    ImportModule ''os'',
    ImportModule ''dotenv'',
    ImportModule ''roboflow'',
    LoadDotenv]"
    unfolding n events_since_def fresh_cell_12_trace t by simp
  then have "events_since fresh_world (notebook quiet fresh_world) \<noteq> []"
    by simp
  with e d r ev show ?thesis by blast
qed

text \<open>
  Claim C7. Every training call of the grid search has weight decay 0.0005 and three
  warm-up epochs; the call right before it is the CUDA availability query, and the device is
  \<^verbatim>\<open>cuda\<close> when that query answers yes and \<^verbatim>\<open>cpu\<close> otherwise.
\<close>

theorem train_calls_fixed_arguments:
  assumes "trace (world_of (cell_20 X w)) = trace w @ pre @ Train m a # post"
  shows "arg_weight_decay a = 0.0005 \<and> arg_warmup_epochs a = 3 \<and>
     (\<exists>h. trace w @ pre = h @ [CudaIsAvailable] \<and>
        arg_device a = (if cuda_available X h then ''cuda'' else ''cpu''))"
  by (rule cell_20_each_train[OF each_train_run_device assms])

theorem train_calls_fixed_arguments_witness:
  "trace (world_of (cell_20 out_of_memory ready_world)) =
     trace ready_world @
     [Chdir (Path ''/'' [''work'', ''yolov8'', ''datasets'']),
      Mkdir (Path ''/'' [''work'', ''yolov8'', ''experiments'', ''yolov8n'',
        ''epoch_50_batch_2_optimizer_Adam'']),
      WandbInit (init_args (Path ''/'' [''work'', ''yolov8'']) ''n'' 50 2 ''Adam''),
      YoloLoad ''yolov8n.pt'',
      CudaIsAvailable] @
     Train ''yolov8n.pt''
       (train_kwargs (Path ''/'' [''work'', ''yolov8'']) ''n'' 50 2 ''Adam''
          ''/work/yolov8/datasets/TA-5'' ''cpu'') # [] \<and>
   arg_weight_decay (train_kwargs (Path ''/'' [''work'', ''yolov8'']) ''n'' 50 2 ''Adam''
          ''/work/yolov8/datasets/TA-5'' ''cpu'') = 0.0005 \<and>
   arg_warmup_epochs (train_kwargs (Path ''/'' [''work'', ''yolov8'']) ''n'' 50 2 ''Adam''
          ''/work/yolov8/datasets/TA-5'' ''cpu'') = 3 \<and>
   arg_device (train_kwargs (Path ''/'' [''work'', ''yolov8'']) ''n'' 50 2 ''Adam''
          ''/work/yolov8/datasets/TA-5'' ''cpu'') = ''cpu''"
proof -
  have tr: "trace (world_of (cell_20 out_of_memory ready_world)) =
     trace ready_world @
     [Chdir (Path ''/'' [''work'', ''yolov8'', ''datasets'']),
      Mkdir (Path ''/'' [''work'', ''yolov8'', ''experiments'', ''yolov8n'',
        ''epoch_50_batch_2_optimizer_Adam'']),
      WandbInit (init_args (Path ''/'' [''work'', ''yolov8'']) ''n'' 50 2 ''Adam''),
      YoloLoad ''yolov8n.pt'',
      CudaIsAvailable] @
     Train ''yolov8n.pt''
       (train_kwargs (Path ''/'' [''work'', ''yolov8'']) ''n'' 50 2 ''Adam''
          ''/work/yolov8/datasets/TA-5'' ''cpu'') # []"
    unfolding out_of_memory_grid out_of_memory_trace
    by (simp add: ready_world_def fresh_world_def)
  from train_calls_fixed_arguments[OF tr] tr show ?thesis
    by (simp add: train_kwargs_def)
qed

text \<open>
  Claim C9. When the environment holds the empty string for \<^verbatim>\<open>ROBOFLOW_API_KEY\<close>,
  the notebook raises before any download or training call, whatever the \<^verbatim>\<open>.env\<close>
  file holds; the check raises the same \<^verbatim>\<open>ValueError\<close> for the empty string as for a
  missing variable.
\<close>

theorem empty_credential_is_missing:
  assumes "environ w ''ROBOFLOW_API_KEY'' = Some []"
  shows "raised (notebook X w) \<noteq> None \<and>
     list_all setup_event (events_since w (notebook X w)) \<and>
     train_calls (events_since w (notebook X w)) = [] \<and>
     (\<forall>u w0 u' w1. cells_before_12 X w = Returns u w0 \<and> cell_12_setup X w0 = Returns u' w1 \<longrightarrow>
        notebook X w = Raises (ValueError api_key_message) (w1\<lparr>api_key := Some []\<rparr>)) \<and>
     raised (require_api_key w) = Some (ValueError api_key_message) \<and>
     raised (require_api_key (w\<lparr>environ := (environ w)(''ROBOFLOW_API_KEY'' := None)\<rparr>)) =
       Some (ValueError api_key_message)"
proof -
  have f: "falsy (environ w ''ROBOFLOW_API_KEY'')"
    "environ w ''ROBOFLOW_API_KEY'' = None \<longrightarrow> falsy (dotenv_file X ''ROBOFLOW_API_KEY'')"
    using assms by (simp_all add: falsy_def)
  from log_grows_events[OF notebook_aborts(2)[OF f]]
  have l: "list_all setup_event (events_since w (notebook X w))" by simp
  have "notebook X w = Raises (ValueError api_key_message) (w1\<lparr>api_key := Some []\<rparr>)"
    if r: "cells_before_12 X w = Returns u w0" and s: "cell_12_setup X w0 = Returns u' w1"
    for u w0 u' w1
  proof -
    from notebook_aborts(4)[OF f r s] assms have "environ w1 ''ROBOFLOW_API_KEY'' = Some []"
      by (auto simp: keeps_key_def)
    with notebook_aborts(3)[OF f r s] show ?thesis by simp
  qed
  moreover have "raised (require_api_key w) = Some (ValueError api_key_message)"
    using f(1) by (simp add: require_api_key_raises)
  moreover have "raised (require_api_key (w\<lparr>environ := (environ w)(''ROBOFLOW_API_KEY'' := None)\<rparr>)) =
       Some (ValueError api_key_message)"
    by (simp add: require_api_key_raises falsy_def)
  ultimately show ?thesis
    using notebook_aborts(1)[OF f] l setup_no_train[OF l] by blast
qed

theorem empty_credential_is_missing_witness:
  "environ empty_key_world ''ROBOFLOW_API_KEY'' = Some [] \<and>
   dotenv_file dotenv_has_key ''ROBOFLOW_API_KEY'' = Some ''secret'' \<and>
   raised (notebook dotenv_has_key empty_key_world) = Some (ValueError api_key_message) \<and>
   train_calls (events_since empty_key_world (notebook dotenv_has_key empty_key_world)) = []"
proof -
  have e: "environ empty_key_world ''ROBOFLOW_API_KEY'' = Some []"
    by (simp add: empty_key_world_def)
  have d: "dotenv_file dotenv_has_key ''ROBOFLOW_API_KEY'' = Some ''secret''"
    by (simp add: dotenv_has_key_def)
  have "notebook dotenv_has_key empty_key_world =
      cell_12 dotenv_has_key (world_of (cells_before_12 dotenv_has_key empty_key_world))"
    by (rule notebook_stops_in_cell_12) (simp_all add: empty_before_12 empty_cell_12)
  then have "raised (notebook dotenv_has_key empty_key_world) = Some (ValueError api_key_message)"
    by (simp add: empty_cell_12)
  with empty_credential_is_missing[OF e, of dotenv_has_key] e d show ?thesis by blast
qed

text \<open>
  Claim C6. The calls of one run are an initial segment of: change to the datasets
  directory, create the experiment directory, open the tracking session (with the run
  configuration as its \<^verbatim>\<open>config\<close> and the experiment directory as its \<^verbatim>\<open>dir\<close>),
  load the checkpoint, query CUDA, train, close the session; all seven when the run returns.
  When the training call has been made and has returned, the session is closed.
\<close>

theorem run_steps_in_order:
  fixes X w version epoch batch_size optimizer dataset_location
  defines "r \<equiv> train_yolo_with_wandb X version epoch batch_size optimizer dataset_location w"
  defines "p \<equiv> experiment_path (HOME w) version epoch batch_size optimizer"
  defines "setup \<equiv> [Chdir (DATASETS_PATH w), Mkdir p,
      WandbInit \<lparr>init_project = ''elec-thermal-detection'', init_entity = ''dar-ta'',
        init_name = ''yolov8'' @ version @ ''-'' @ experiment_name epoch batch_size optimizer,
        init_config = \<lparr>cfg_epochs = epoch, cfg_batch_size = batch_size,
          cfg_optimizer = optimizer, cfg_version = version\<rparr>,
        init_timeout = 300, init_dir = str_path p\<rparr>,
      YoloLoad (''yolov8'' @ version @ ''.pt''), CudaIsAvailable]"
  defines "training \<equiv> Train (''yolov8'' @ version @ ''.pt'')
      (train_kwargs (HOME w) version epoch batch_size optimizer dataset_location
        (select_device (cuda_available X (trace w @ butlast setup))))"
  shows "trace (world_of r) = trace w @ events_since w r \<and>
     prefix (events_since w r) (setup @ [training, WandbFinish]) \<and>
     (raised r = None \<longrightarrow> events_since w r = setup @ [training, WandbFinish]) \<and>
     (training \<in> set (events_since w r) \<and> outcome_of X (trace w @ setup) training = None \<longrightarrow>
        WandbFinish \<in> set (events_since w r))"
proof -
  let ?R = "run_events X (trace w) (HOME w) (DATASETS_PATH w) version epoch batch_size optimizer
      dataset_location"
  have R: "?R = setup @ [training, WandbFinish]"
    unfolding setup_def training_def p_def
    by (simp add: run_events_list init_args_def run_name_def model_name_def)
  have five: "?R ! 5 = training" "take 5 ?R = setup"
    unfolding R by (simp_all add: setup_def)
  note t = train_run[where X=X and version=version and epoch=epoch and batch_size=batch_size
      and optimizer=optimizer and dataset_location=dataset_location and w=w]
  have fin: "WandbFinish \<in> set (events_since w r)"
    if "training \<in> set (events_since w r)" "outcome_of X (trace w @ setup) training = None"
    using train_run_finish[where X=X and version=version and epoch=epoch
        and batch_size=batch_size and optimizer=optimizer and dataset_location=dataset_location
        and w=w] that
    unfolding five r_def by simp
  from t(1,2,3) fin show ?thesis
    unfolding r_def[symmetric] R by blast
qed

theorem run_steps_in_order_witness:
  "raised (train_yolo_with_wandb quiet ''n'' 50 2 ''Adam'' ''/work/yolov8/datasets/TA-5'' ready_world)
     = None \<and>
   events_since ready_world
     (train_yolo_with_wandb quiet ''n'' 50 2 ''Adam'' ''/work/yolov8/datasets/TA-5'' ready_world) =
   [Chdir (Path ''/'' [''work'', ''yolov8'', ''datasets'']),
    Mkdir (Path ''/'' [''work'', ''yolov8'', ''experiments'', ''yolov8n'',
      ''epoch_50_batch_2_optimizer_Adam'']),
    WandbInit \<lparr>init_project = ''elec-thermal-detection'', init_entity = ''dar-ta'',
      init_name = ''yolov8n-epoch_50_batch_2_optimizer_Adam'',
      init_config = \<lparr>cfg_epochs = 50, cfg_batch_size = 2,
        cfg_optimizer = ''Adam'', cfg_version = ''n''\<rparr>,
      init_timeout = 300,
      init_dir = ''/work/yolov8/experiments/yolov8n/epoch_50_batch_2_optimizer_Adam''\<rparr>,
    YoloLoad ''yolov8n.pt'',
    CudaIsAvailable,
    Train ''yolov8n.pt''
      \<lparr>arg_data = ''/work/yolov8/datasets/TA-5/data.yaml'', arg_epochs = 50, arg_batch = 2,
       arg_optimizer = ''Adam'', arg_weight_decay = 0.0005, arg_warmup_epochs = 3,
       arg_save_dir = ''/work/yolov8/experiments/yolov8n/epoch_50_batch_2_optimizer_Adam'',
       arg_device = ''cpu''\<rparr>,
    WandbFinish]"
proof -
  have n: "experiment_name 50 2 ''Adam'' = ''epoch_50_batch_2_optimizer_Adam''"
    by (simp add: experiment_name_def str_int_50 str_int_2)
  have p: "experiment_path (Path ''/'' [''work'', ''yolov8'']) ''n'' 50 2 ''Adam'' =
     Path ''/'' [''work'', ''yolov8'', ''experiments'', ''yolov8n'', ''epoch_50_batch_2_optimizer_Adam'']"
    by (simp add: experiment_path_parts n)
  have g: "HOME ready_world = Path ''/'' [''work'', ''yolov8'']"
    "DATASETS_PATH ready_world = Path ''/'' [''work'', ''yolov8'', ''datasets'']"
    by (simp_all add: ready_world_def)
  have c: "cuda_available quiet h = False" for h
    by (simp add: quiet_def)
  from run_steps_in_order[of quiet "''n''" 50 2 "''Adam''" "''/work/yolov8/datasets/TA-5''" ready_world]
    quiet_run_returns
  have "events_since ready_world
     (train_yolo_with_wandb quiet ''n'' 50 2 ''Adam'' ''/work/yolov8/datasets/TA-5'' ready_world) =
     [Chdir (DATASETS_PATH ready_world),
      Mkdir (experiment_path (HOME ready_world) ''n'' 50 2 ''Adam''),
      WandbInit \<lparr>init_project = ''elec-thermal-detection'', init_entity = ''dar-ta'',
        init_name = ''yolov8'' @ ''n'' @ ''-'' @ experiment_name 50 2 ''Adam'',
        init_config = \<lparr>cfg_epochs = 50, cfg_batch_size = 2,
          cfg_optimizer = ''Adam'', cfg_version = ''n''\<rparr>,
        init_timeout = 300,
        init_dir = str_path (experiment_path (HOME ready_world) ''n'' 50 2 ''Adam'')\<rparr>,
      YoloLoad (''yolov8'' @ ''n'' @ ''.pt''), CudaIsAvailable] @
     [Train (''yolov8'' @ ''n'' @ ''.pt'')
      (train_kwargs (HOME ready_world) ''n'' 50 2 ''Adam'' ''/work/yolov8/datasets/TA-5''
        (select_device (cuda_available quiet (trace ready_world @ butlast
          [Chdir (DATASETS_PATH ready_world),
      Mkdir (experiment_path (HOME ready_world) ''n'' 50 2 ''Adam''),
      WandbInit \<lparr>init_project = ''elec-thermal-detection'', init_entity = ''dar-ta'',
        init_name = ''yolov8'' @ ''n'' @ ''-'' @ experiment_name 50 2 ''Adam'',
        init_config = \<lparr>cfg_epochs = 50, cfg_batch_size = 2,
          cfg_optimizer = ''Adam'', cfg_version = ''n''\<rparr>,
        init_timeout = 300,
        init_dir = str_path (experiment_path (HOME ready_world) ''n'' 50 2 ''Adam'')\<rparr>,
      YoloLoad (''yolov8'' @ ''n'' @ ''.pt''), CudaIsAvailable])))), WandbFinish]"
    by blast
  then show ?thesis
    using quiet_run_returns
    by (simp add: g p n c select_device_def train_kwargs_def str_path_def)
qed

text \<open>
  Claim C8. Creating the experiment directory succeeds, and changes nothing, when the
  directory exists; after a successful creation the directory exists and creating it again
  succeeds. Two runs for the same configuration under the same \<^verbatim>\<open>HOME\<close> create the
  same path.
\<close>

theorem directory_creation_idempotent:
  "(is_dir (fs w) (experiment_path (HOME w) v e b opt) \<longrightarrow>
      mkdir_stmt (experiment_path (HOME w) v e b opt) w =
        Returns () (logged (Mkdir (experiment_path (HOME w) v e b opt)) w)) \<and>
   (mkdir_stmt (experiment_path (HOME w) v e b opt) w = Returns u w' \<longrightarrow>
      is_dir (fs w') (experiment_path (HOME w) v e b opt) \<and>
      mkdir_stmt (experiment_path (HOME w) v e b opt) w' =
        Returns () (logged (Mkdir (experiment_path (HOME w) v e b opt)) w')) \<and>
   (Mkdir q \<in> set (events_since w (train_yolo_with_wandb X v e b opt loc w)) \<and>
    Mkdir q2 \<in> set (events_since w2 (train_yolo_with_wandb X2 v e b opt loc2 w2)) \<and>
    HOME w2 = HOME w \<longrightarrow> q2 = q \<and> q = experiment_path (HOME w) v e b opt)"
  using mkdir_stmt_existing mkdir_stmt_made run_mkdir_path by metis

theorem directory_creation_idempotent_witness:
  "raised (mkdir_stmt (experiment_path (HOME ready_world) ''n'' 50 2 ''Adam'') ready_world) = None \<and>
   is_dir (fs (world_of (mkdir_stmt (experiment_path (HOME ready_world) ''n'' 50 2 ''Adam'') ready_world)))
     (experiment_path (HOME ready_world) ''n'' 50 2 ''Adam'') \<and>
   raised (mkdir_stmt (experiment_path (HOME ready_world) ''n'' 50 2 ''Adam'')
     (world_of (mkdir_stmt (experiment_path (HOME ready_world) ''n'' 50 2 ''Adam'') ready_world))) = None \<and>
   Mkdir (experiment_path (HOME ready_world) ''n'' 50 2 ''Adam'') \<in>
     set (events_since ready_world
       (train_yolo_with_wandb quiet ''n'' 50 2 ''Adam'' ''/work/yolov8/datasets/TA-5'' ready_world)) \<and>
   Mkdir (Path ''/'' [''work'', ''yolov8'', ''experiments'', ''yolov8n'',
       ''epoch_50_batch_2_optimizer_Adam'']) \<in>
     set (events_since ready_world
       (train_yolo_with_wandb out_of_memory ''n'' 50 2 ''Adam'' ''/work/yolov8/datasets/TA-5''
          ready_world)) \<and>
   Path ''/'' [''work'', ''yolov8'', ''experiments'', ''yolov8n'', ''epoch_50_batch_2_optimizer_Adam''] =
     experiment_path (HOME ready_world) ''n'' 50 2 ''Adam''"
proof -
  let ?p = "experiment_path (HOME ready_world) ''n'' 50 2 ''Adam''"
  let ?q = "Path ''/'' [''work'', ''yolov8'', ''experiments'', ''yolov8n'',
       ''epoch_50_batch_2_optimizer_Adam'']"
  let ?r1 = "train_yolo_with_wandb quiet ''n'' 50 2 ''Adam'' ''/work/yolov8/datasets/TA-5'' ready_world"
  let ?r2 = "train_yolo_with_wandb out_of_memory ''n'' 50 2 ''Adam'' ''/work/yolov8/datasets/TA-5''
          ready_world"
  from ready_mkdir_returns obtain u wA where m: "mkdir_stmt ?p ready_world = Returns u wA"
    by (cases "mkdir_stmt ?p ready_world") simp_all
  from train_run(3)[where X=quiet and version="''n''" and epoch=50 and batch_size=2
      and optimizer="''Adam''" and dataset_location="''/work/yolov8/datasets/TA-5''"
      and w=ready_world, OF quiet_run_returns]
  have e1: "Mkdir ?p \<in> set (events_since ready_world ?r1)"
    by (simp add: run_events_def Let_def)
  have "trace ready_world = []"
    by (simp add: ready_world_def fresh_world_def)
  with out_of_memory_trace have e2: "Mkdir ?q \<in> set (events_since ready_world ?r2)"
    by (simp add: events_since_def run_cell_pair)
  note t = directory_creation_idempotent[of ready_world "''n''" 50 2 "''Adam''" u wA ?p quiet
      "''/work/yolov8/datasets/TA-5''" ?q ready_world out_of_memory "''/work/yolov8/datasets/TA-5''"]
  from t m have "is_dir (fs wA) ?p" and "mkdir_stmt ?p wA = Returns () (logged (Mkdir ?p) wA)"
    by blast+
  moreover from t e1 e2 have "?q = ?p"
    by blast
  ultimately show ?thesis
    using m e1 e2 ready_mkdir_returns by simp
qed

text \<open>
  Claim C10. Every training call of the grid search gets the same data argument: the
  datasets directory joined with \<^verbatim>\<open>TA-5\<close>, followed by \<^verbatim>\<open>/data.yaml\<close>. It does
  not depend on the combination, and not on what the download returned (\<open>d\<close>, the value
  of the global \<^verbatim>\<open>dataset\<close>).
\<close>

theorem dataset_location_is_fixed:
  assumes "trace (world_of (cell_20 X (w\<lparr>dataset := d\<rparr>))) = trace w @ pre @ Train m a # post"
  shows "arg_data a = str_path (joinpath (DATASETS_PATH w) ''TA-5'') @ ''/data.yaml''"
proof -
  let ?w = "w\<lparr>dataset := d\<rparr>"
  have tr: "trace (world_of (cell_20 X ?w)) = trace ?w @ pre @ Train m a # post"
    using assms by simp
  have P: "each_train (\<lambda>h m a. arg_data a = str_path (joinpath (DATASETS_PATH ?w) ''TA-5'') @ ''/data.yaml'')
      h (run_events X h (HOME ?w) (DATASETS_PATH ?w) v e b opt
           (str_path (joinpath (DATASETS_PATH ?w) ''TA-5'')))" for h v e b opt
    by (rule each_train_run_data)
  from cell_20_each_train[where P="\<lambda>h m a. arg_data a = str_path (joinpath (DATASETS_PATH ?w) ''TA-5'') @ ''/data.yaml''", OF P tr]
  show ?thesis by simp
qed

theorem dataset_location_is_fixed_witness:
  "trace (world_of (cell_20 out_of_memory (ready_world\<lparr>dataset := ''/downloads/TA-5''\<rparr>))) =
     trace ready_world @
     [Chdir (Path ''/'' [''work'', ''yolov8'', ''datasets'']),
      Mkdir (Path ''/'' [''work'', ''yolov8'', ''experiments'', ''yolov8n'',
        ''epoch_50_batch_2_optimizer_Adam'']),
      WandbInit (init_args (Path ''/'' [''work'', ''yolov8'']) ''n'' 50 2 ''Adam''),
      YoloLoad ''yolov8n.pt'',
      CudaIsAvailable] @
     Train ''yolov8n.pt''
       (train_kwargs (Path ''/'' [''work'', ''yolov8'']) ''n'' 50 2 ''Adam''
          ''/work/yolov8/datasets/TA-5'' ''cpu'') # [] \<and>
   arg_data (train_kwargs (Path ''/'' [''work'', ''yolov8'']) ''n'' 50 2 ''Adam''
          ''/work/yolov8/datasets/TA-5'' ''cpu'') = ''/work/yolov8/datasets/TA-5/data.yaml''"
proof -
  have tr: "trace (world_of (cell_20 out_of_memory (ready_world\<lparr>dataset := ''/downloads/TA-5''\<rparr>))) =
     trace ready_world @
     [Chdir (Path ''/'' [''work'', ''yolov8'', ''datasets'']),
      Mkdir (Path ''/'' [''work'', ''yolov8'', ''experiments'', ''yolov8n'',
        ''epoch_50_batch_2_optimizer_Adam'']),
      WandbInit (init_args (Path ''/'' [''work'', ''yolov8'']) ''n'' 50 2 ''Adam''),
      YoloLoad ''yolov8n.pt'',
      CudaIsAvailable] @
     Train ''yolov8n.pt''
       (train_kwargs (Path ''/'' [''work'', ''yolov8'']) ''n'' 50 2 ''Adam''
          ''/work/yolov8/datasets/TA-5'' ''cpu'') # []"
    unfolding out_of_memory_elsewhere_grid out_of_memory_elsewhere_trace
    by (simp add: ready_world_def fresh_world_def)
  from dataset_location_is_fixed[OF tr] have
    "arg_data (train_kwargs (Path ''/'' [''work'', ''yolov8'']) ''n'' 50 2 ''Adam''
          ''/work/yolov8/datasets/TA-5'' ''cpu'') =
     str_path (joinpath (DATASETS_PATH ready_world) ''TA-5'') @ ''/data.yaml''" .
  with tr show ?thesis
    by (simp add: ready_location)
qed

end
